theory Spec2Isabelle
  imports
    Complex_Main
    "HOL-Library.Char_ord"
    "HOL-Library.List_Lexorder"
    "HOL-Library.Multiset"
    "HOL-Library.Sublist"
begin

section \<open>Go strings\<close>

text \<open>
  A Go string is a sequence of bytes, here a \<^typ>\<open>string\<close>. Comparison with \<open><\<close> in Go is
  bytewise lexicographic; that is the order \<^theory_text>\<open>Char_ord\<close> and \<^theory_text>\<open>List_Lexorder\<close>
  give to \<^typ>\<open>string\<close>.

  \<open>strings.ToLower\<close> and \<open>strings.TrimSpace\<close> belong to Go's standard library and work on
  Unicode code points. The registry functions take them as parameters (record \<open>go_library\<close>
  below). What is written out here is what the two compute on ASCII strings: the letters
  \<open>A\<close>..\<open>Z\<close> are mapped to \<open>a\<close>..\<open>z\<close>, and the white space removed is tab, line feed,
  vertical tab, form feed, carriage return and space.
\<close>

definition is_ascii :: "string \<Rightarrow> bool" where
  "is_ascii s \<longleftrightarrow> (\<forall>c \<in> set s. (of_char c :: nat) < 128)"

definition toLowerByte :: "char \<Rightarrow> char" where
  "toLowerByte c =
     (if CHR ''A'' \<le> c \<and> c \<le> CHR ''Z'' then char_of (of_char c + (32::nat)) else c)"

definition ascii_ToLower :: "string \<Rightarrow> string" where
  "ascii_ToLower s = map toLowerByte s"

definition isSpaceByte :: "char \<Rightarrow> bool" where
  "isSpaceByte c \<longleftrightarrow> c \<in> set [CHR 0x09, CHR 0x0A, CHR 0x0B, CHR 0x0C, CHR 0x0D, CHR '' '']"

definition ascii_TrimSpace :: "string \<Rightarrow> string" where
  "ascii_TrimSpace s = rev (dropWhile isSpaceByte (rev (dropWhile isSpaceByte s)))"

section \<open>Capability registry\<close>

subsection \<open>Model descriptors\<close>

text \<open>
  The struct types \<open>ModelInfo\<close>, \<open>ThinkingSupport\<close> and \<open>AntigravityModelConfig\<close> are declared
  outside \<open>model_definitions.go\<close>; the records below carry the fields that file reads and
  writes. A Go pointer that may be \<open>nil\<close> is an \<^typ>\<open>'a option\<close>; a slice is a list, the
  \<open>nil\<close> slice being the empty list.
\<close>

record ThinkingSupport =
  Min_thinking :: int
  Max_thinking :: int
  ZeroAllowed :: bool
  DynamicAllowed :: bool
  Levels :: "string list"

record ModelInfo =
  ID :: string
  Object :: string
  Created :: int
  OwnedBy :: string
  Type :: string
  DisplayName :: string
  Description :: string
  ContextLength :: int
  MaxCompletionTokens :: int
  SupportedEndpoints :: "string list"
  Thinking :: "ThinkingSupport option"

record AntigravityModelConfig =
  Thinking_cfg :: "ThinkingSupport option"
  MaxCompletionTokens_cfg :: int

text \<open>
  The static tables live in \<open>model_definitions_static_data.go\<close>, so the registry functions
  take them as a parameter. \<open>GetAntigravityModelConfig\<close> returns a Go map from model
  identifier to a pointer; it is kept as the list of its entries in the order in which one
  \<open>range\<close> loop visits them (Go leaves that order open, and it may change from one call to
  the next). A Go map has each key once: \<open>distinct (map fst cfg)\<close>. Indexing the map is
  \<^const>\<open>map_of\<close>.
\<close>

record static_data =
  GetClaudeModels :: "ModelInfo option list"
  GetGeminiModels :: "ModelInfo option list"
  GetGeminiVertexModels :: "ModelInfo option list"
  GetGeminiCLIModels :: "ModelInfo option list"
  GetAIStudioModels :: "ModelInfo option list"
  GetOpenAIModels :: "ModelInfo option list"
  GetQwenModels :: "ModelInfo option list"
  GetIFlowModels :: "ModelInfo option list"
  GetAntigravityModelConfig :: "(string \<times> AntigravityModelConfig option) list"

subsection \<open>The standard library\<close>

text \<open>
  The three library functions \<open>model_definitions.go\<close> calls: \<open>strings.ToLower\<close>,
  \<open>strings.TrimSpace\<close> and \<open>sort.Slice\<close> (given the comparison \<open>less\<close> on elements, it
  returns the slice sorted). They are parameters of the registry functions, so a theorem
  about every \<open>lib\<close> is a theorem about the Unicode-aware functions of the Go library.
\<close>

record go_library =
  ToLower :: "string \<Rightarrow> string"
  TrimSpace :: "string \<Rightarrow> string"
  sort_Slice :: "(ModelInfo \<Rightarrow> ModelInfo \<Rightarrow> bool) \<Rightarrow> ModelInfo list \<Rightarrow> ModelInfo list"

text \<open>
  What the theorems below assume of the library, where they assume anything. On ASCII
  strings \<open>ToLower\<close> and \<open>TrimSpace\<close> compute what is written out above. \<open>sort.Slice\<close>,
  called with a comparison of string keys, returns a permutation of the slice in which
  the keys ascend; it is not promised to be stable.
\<close>

definition go_strings :: "go_library \<Rightarrow> bool" where
  "go_strings lib \<longleftrightarrow>
     (\<forall>s. is_ascii s \<longrightarrow> ToLower lib s = ascii_ToLower s \<and> TrimSpace lib s = ascii_TrimSpace s)"

definition go_sort :: "go_library \<Rightarrow> bool" where
  "go_sort lib \<longleftrightarrow>
     (\<forall>(key :: ModelInfo \<Rightarrow> string) xs.
        mset (sort_Slice lib (\<lambda>a b. key a < key b) xs) = mset xs \<and>
        sorted (map key (sort_Slice lib (\<lambda>a b. key a < key b) xs)))"

text \<open>
  The insertion sort \<open>sort.Slice\<close> runs on a slice of at most twelve elements:
  \<^verbatim>\<open>for i := a + 1; i < b; i++ {
    for j := i; j > a && less(data[j], data[j-1]); j-- { swap(j, j-1) } }\<close>
  \<open>shift_left lessf x prefix\<close> is the inner loop (\<open>lessf\<close> being \<open>less\<close>): \<open>prefix\<close> is the part already sorted, its
  last element first, and \<open>x\<close> moves left past every element it is less than.
\<close>

fun shift_left :: "('a \<Rightarrow> 'a \<Rightarrow> bool) \<Rightarrow> 'a \<Rightarrow> 'a list \<Rightarrow> 'a list" where
  "shift_left lessf x [] = [x]"
| "shift_left lessf x (y # ys) =
     (if lessf x y then y # shift_left lessf x ys else x # y # ys)"

definition insertionSort :: "('a \<Rightarrow> 'a \<Rightarrow> bool) \<Rightarrow> 'a list \<Rightarrow> 'a list" where
  "insertionSort lessf xs = rev (foldl (\<lambda>prefix x. shift_left lessf x prefix) [] xs)"

text \<open>
  A library to evaluate with: it is the Go library on ASCII strings and on slices of at
  most twelve elements.
\<close>

definition go_ascii :: go_library where
  "go_ascii =
     \<lparr>ToLower = ascii_ToLower, TrimSpace = ascii_TrimSpace, sort_Slice = insertionSort\<rparr>"

subsection \<open>\<open>GetStaticModelDefinitionsByChannel\<close>\<close>

text \<open>The descriptor the \<open>antigravity\<close> branch builds for one map entry.\<close>

definition antigravity_ModelInfo :: "string \<Rightarrow> AntigravityModelConfig \<Rightarrow> ModelInfo" where
  "antigravity_ModelInfo modelID entry =
     \<lparr>ID = modelID, Object = ''model'', Created = 0, OwnedBy = ''antigravity'',
      Type = ''antigravity'', DisplayName = '''', Description = '''', ContextLength = 0,
      MaxCompletionTokens = MaxCompletionTokens_cfg entry, SupportedEndpoints = [],
      Thinking = Thinking_cfg entry\<rparr>"

text \<open>The \<open>range\<close> loop: \<open>models\<close> is the slice built so far.\<close>

fun antigravity_collect ::
  "ModelInfo list \<Rightarrow> (string \<times> AntigravityModelConfig option) list \<Rightarrow> ModelInfo list" where
  "antigravity_collect models [] = models"
| "antigravity_collect models ((modelID, entry) # rest) =
     (if modelID = '''' \<or> entry = None then antigravity_collect models rest
      else antigravity_collect (models @ [antigravity_ModelInfo modelID (the entry)]) rest)"

text \<open>
  The branch \<open>case "antigravity"\<close>: the loop, then \<open>sort.Slice(models, less)\<close> with
  \<open>less i j = strings.ToLower(models[i].ID) < strings.ToLower(models[j].ID)\<close>.
\<close>

definition antigravity_models ::
  "go_library \<Rightarrow> (string \<times> AntigravityModelConfig option) list \<Rightarrow> ModelInfo option list" where
  "antigravity_models lib cfg =
     (if length cfg = 0 then []
      else map Some
             (sort_Slice lib (\<lambda>mi mj. ToLower lib (ID mi) < ToLower lib (ID mj))
                (antigravity_collect [] cfg)))"

definition GetStaticModelDefinitionsByChannel ::
  "go_library \<Rightarrow> static_data \<Rightarrow> string \<Rightarrow> ModelInfo option list" where
  "GetStaticModelDefinitionsByChannel lib sd channel =
     (let key = ToLower lib (TrimSpace lib channel) in
      if key = ''claude'' then GetClaudeModels sd
      else if key = ''gemini'' then GetGeminiModels sd
      else if key = ''vertex'' then GetGeminiVertexModels sd
      else if key = ''gemini-cli'' then GetGeminiCLIModels sd
      else if key = ''aistudio'' then GetAIStudioModels sd
      else if key = ''codex'' then GetOpenAIModels sd
      else if key = ''qwen'' then GetQwenModels sd
      else if key = ''iflow'' then GetIFlowModels sd
      else if key = ''antigravity'' then antigravity_models lib (GetAntigravityModelConfig sd)
      else [])"

text \<open>The keys of the \<open>switch\<close>.\<close>

definition known_channels :: "string list" where
  "known_channels =
     [''claude'', ''gemini'', ''vertex'', ''gemini-cli'', ''aistudio'', ''codex'', ''qwen'',
      ''iflow'', ''antigravity'']"

subsection \<open>\<open>LookupStaticModelInfo\<close>\<close>

text \<open>The inner loop over one table and the outer loop over the tables.\<close>

fun lookup_in_models :: "string \<Rightarrow> ModelInfo option list \<Rightarrow> ModelInfo option" where
  "lookup_in_models modelID [] = None"
| "lookup_in_models modelID (m # models) =
     (case m of
        None \<Rightarrow> lookup_in_models modelID models
      | Some mi \<Rightarrow> if ID mi = modelID then Some mi else lookup_in_models modelID models)"

fun lookup_in_all :: "string \<Rightarrow> ModelInfo option list list \<Rightarrow> ModelInfo option" where
  "lookup_in_all modelID [] = None"
| "lookup_in_all modelID (models # rest) =
     (case lookup_in_models modelID models of
        Some mi \<Rightarrow> Some mi
      | None \<Rightarrow> lookup_in_all modelID rest)"

definition allModels :: "static_data \<Rightarrow> ModelInfo option list list" where
  "allModels sd =
     [GetClaudeModels sd, GetGeminiModels sd, GetGeminiVertexModels sd, GetGeminiCLIModels sd,
      GetAIStudioModels sd, GetOpenAIModels sd, GetQwenModels sd, GetIFlowModels sd]"

text \<open>The descriptor the fallback builds: every field not named keeps Go's zero value.\<close>

definition lookup_ModelInfo :: "string \<Rightarrow> AntigravityModelConfig \<Rightarrow> ModelInfo" where
  "lookup_ModelInfo modelID cfg =
     \<lparr>ID = modelID, Object = '''', Created = 0, OwnedBy = '''', Type = '''',
      DisplayName = '''', Description = '''', ContextLength = 0,
      MaxCompletionTokens = MaxCompletionTokens_cfg cfg, SupportedEndpoints = [],
      Thinking = Thinking_cfg cfg\<rparr>"

definition LookupStaticModelInfo :: "static_data \<Rightarrow> string \<Rightarrow> ModelInfo option" where
  "LookupStaticModelInfo sd modelID =
     (if modelID = '''' then None
      else case lookup_in_all modelID (allModels sd) of
        Some mi \<Rightarrow> Some mi
      | None \<Rightarrow>
          (case map_of (GetAntigravityModelConfig sd) modelID of
             Some (Some cfg) \<Rightarrow> Some (lookup_ModelInfo modelID cfg)
           | _ \<Rightarrow> None))"

section \<open>Quota handlers\<close>

subsection \<open>Values, contexts, requests\<close>

text \<open>
  A value of type \<open>interface{}\<close>, as the credential metadata and the JSON replies hold
  them. \<open>float64\<close> values are only copied from the provider's answer into the reply, never
  computed with, and are kept as \<^typ>\<open>real\<close>.
\<close>

datatype any_value =
    JString string
  | JNumber real
  | JBool bool
  | JNull
  | JArray "any_value list"
  | JObject "(string \<times> any_value) list"

text \<open>
  A \<open>context.Context\<close>: the background context, a context owned by an inbound request, or
  a context derived from a parent with a timeout in seconds. Cancelling a context cancels
  the contexts derived from it.
\<close>

datatype "context" = Background | RequestContext nat | WithTimeout "context" nat

fun derives_from :: "context \<Rightarrow> context \<Rightarrow> bool" where
  "derives_from Background p = (p = Background)"
| "derives_from (RequestContext n) p = (p = RequestContext n)"
| "derives_from (WithTimeout c d) p = (p = WithTimeout c d \<or> derives_from c p)"

text \<open>
  An outbound HTTP request as the handlers build it: the headers in the order of the
  \<open>Header.Set\<close> calls, the JSON object sent as body (\<open>None\<close> for a \<open>nil\<close> body), the
  context the request was created with (\<open>http.NewRequest\<close> uses the background context)
  and the \<open>Timeout\<close> of the client in seconds.
\<close>

record request =
  Method :: string
  URL :: string
  Header :: "(string \<times> string) list"
  Body :: "(string \<rightharpoonup> string) option"
  ctx :: "context"
  client_timeout :: nat

text \<open>
  What \<open>client.Do\<close> followed by \<open>io.ReadAll\<close> can give: no response, a response whose body
  cannot be read, or a status code with the body text.
\<close>

datatype http_result =
    TransportError string
  | ReadError int string
  | Response int string

subsection \<open>Provider answers\<close>

record kiroSubscriptionInfo =
  SubscriptionTitle :: string

record kiroUsageBreakdown =
  CurrentUsageWithPrecision :: real
  UsageLimitWithPrecision :: real

record kiroUsageResult =
  SubscriptionInfo :: kiroSubscriptionInfo
  UsageBreakdownList :: "kiroUsageBreakdown list"
  NextDateReset :: real

record kiroProfile =
  ProfileArn :: string

record kiroProfilesResult =
  Profiles :: "kiroProfile list"

record QuotaDetail =
  Entitlement :: real
  OverageCount :: real
  OveragePermitted :: bool
  PercentRemaining :: real
  QuotaID :: string
  QuotaRemaining :: real
  Remaining :: real
  Unlimited :: bool

record QuotaSnapshots =
  Chat :: QuotaDetail
  Completions :: QuotaDetail
  PremiumInteractions :: QuotaDetail

record CopilotUsageResponse =
  AccessTypeSKU :: string
  AnalyticsTrackingID :: string
  AssignedDate :: string
  CanSignupForLimited :: bool
  ChatEnabled :: bool
  CopilotPlan :: string
  OrganizationLoginList :: "any_value list"
  OrganizationList :: "any_value list"
  QuotaResetDate :: string
  QuotaSnapshots :: QuotaSnapshots

text \<open>
  The world outside the handlers: the network, and \<open>json.Unmarshal\<close> into each of the three
  answer types (\<open>Inl\<close> carries the text of the decoding error).
\<close>

record env =
  roundTrip :: "request \<Rightarrow> http_result"
  Unmarshal_kiroProfilesResult :: "string \<Rightarrow> string + kiroProfilesResult"
  Unmarshal_kiroUsageResult :: "string \<Rightarrow> string + kiroUsageResult"
  Unmarshal_CopilotUsageResponse :: "string \<Rightarrow> string + CopilotUsageResponse"

subsection \<open>Handler, inbound request, reply\<close>

text \<open>
  The credential record of the external store: only its metadata is read, a map that may
  be \<open>nil\<close>. Indexing a \<open>nil\<close> map finds nothing.
\<close>

record Auth =
  Metadata :: "(string \<rightharpoonup> any_value) option"

definition index_Metadata :: "Auth \<Rightarrow> string \<Rightarrow> any_value option" where
  "index_Metadata auth key = (case Metadata auth of None \<Rightarrow> None | Some m \<Rightarrow> m key)"

text \<open>The type assertion \<open>v.(string)\<close> on the result of indexing.\<close>

fun assert_string :: "any_value option \<Rightarrow> string option" where
  "assert_string (Some (JString s)) = Some s"
| "assert_string _ = None"

text \<open>
  The handler holds the credential store (\<open>authManager\<close>, possibly \<open>nil\<close>; \<open>GetByID\<close> gives
  a pointer and a flag) and the configured proxy URL.
\<close>

record Handler =
  authManager :: "(string \<Rightarrow> Auth option \<times> bool) option"
  ProxyURL :: string

record gin_Context =
  query :: "string \<rightharpoonup> string"
  Request_Context :: "context"

definition Query :: "gin_Context \<Rightarrow> string \<Rightarrow> string" where
  "Query c key = (case query c key of None \<Rightarrow> '''' | Some v \<Rightarrow> v)"

text \<open>What \<open>c.JSON(status, obj)\<close> sends: a \<open>gin.H\<close> map or the Copilot answer.\<close>

datatype json_body = H "string \<rightharpoonup> any_value" | Usage CopilotUsageResponse

datatype log_entry = Warnf string | Debugf string

text \<open>
  One run of a handler: the reply, the identifiers looked up in the credential store, the
  outbound requests in the order they were sent, and the log lines.
\<close>

record run =
  reply :: "int \<times> json_body"
  lookups :: "string list"
  calls :: "request list"
  logs :: "log_entry list"

subsection \<open>Formatting \<open>%d\<close>\<close>

fun digits :: "nat \<Rightarrow> string" where
  "digits n =
     (if n < 10 then [''0123456789'' ! n]
      else digits (n div 10) @ [''0123456789'' ! (n mod 10)])"

declare digits.simps [simp del]

definition itoa :: "int \<Rightarrow> string" where
  "itoa i = (if i < 0 then CHR ''-'' # digits (nat (- i)) else digits (nat i))"

subsection \<open>Kiro: \<open>makeKiroRequest\<close>, \<open>listProfiles\<close>, \<open>getUsageLimits\<close>, \<open>GetKiroQuota\<close>\<close>

definition awsKiroEndpoint :: string where
  "awsKiroEndpoint = ''https://codewhisperer.us-east-1.amazonaws.com''"

definition targetGetUsage :: string where
  "targetGetUsage = ''AmazonCodeWhispererService.GetUsageLimits''"

definition targetListProfiles :: string where
  "targetListProfiles = ''AmazonCodeWhispererService.ListProfiles''"

text \<open>
  The request \<open>makeKiroRequest\<close> sends. \<open>json.Marshal\<close> of a map of strings and
  \<open>http.NewRequestWithContext\<close> with a constant method and URL do not fail.
\<close>

definition kiro_request ::
  "context \<Rightarrow> string \<Rightarrow> string \<Rightarrow> (string \<rightharpoonup> string) \<Rightarrow> request" where
  "kiro_request c target accessToken payload =
     \<lparr>Method = ''POST'', URL = awsKiroEndpoint,
      Header = [(''Content-Type'', ''application/x-amz-json-1.0''),
                (''x-amz-target'', target),
                (''Authorization'', ''Bearer '' @ accessToken),
                (''Accept'', ''application/json'')],
      Body = Some payload, ctx = c, client_timeout = 30\<rparr>"

definition makeKiroRequest ::
  "env \<Rightarrow> context \<Rightarrow> string \<Rightarrow> string \<Rightarrow> string \<Rightarrow> (string \<rightharpoonup> string) \<Rightarrow>
   (string + string) \<times> request list" where
  "makeKiroRequest e c proxyURL target accessToken payload =
     (let req = kiro_request c target accessToken payload in
      (case roundTrip e req of
         TransportError err \<Rightarrow> Inl (''request failed: '' @ err)
       | ReadError st err \<Rightarrow> Inl (''failed to read response: '' @ err)
       | Response st b \<Rightarrow>
           if st \<noteq> 200 then Inl (''API error (status '' @ itoa st @ ''): '' @ b)
           else Inr b,
       [req]))"

definition listProfiles ::
  "env \<Rightarrow> context \<Rightarrow> string \<Rightarrow> string \<Rightarrow> (string + string list) \<times> request list" where
  "listProfiles e c proxyURL accessToken =
     (case makeKiroRequest e c proxyURL targetListProfiles accessToken Map.empty of
        (Inl err, cs) \<Rightarrow> (Inl err, cs)
      | (Inr b, cs) \<Rightarrow>
          (case Unmarshal_kiroProfilesResult e b of
             Inl err \<Rightarrow> (Inl (''failed to parse profiles response: '' @ err), cs)
           | Inr result \<Rightarrow> (Inr (map ProfileArn (Profiles result)), cs)))"

definition usage_payload :: "string \<Rightarrow> (string \<rightharpoonup> string)" where
  "usage_payload profileArn =
     (let payload = [''origin'' \<mapsto> ''AI_EDITOR'', ''resourceType'' \<mapsto> ''AGENTIC_REQUEST''] in
      if profileArn \<noteq> '''' then payload(''profileArn'' \<mapsto> profileArn) else payload)"

definition getUsageLimits ::
  "env \<Rightarrow> context \<Rightarrow> string \<Rightarrow> string \<Rightarrow> string \<Rightarrow>
   (string + kiroUsageResult) \<times> request list" where
  "getUsageLimits e c proxyURL accessToken profileArn =
     (case makeKiroRequest e c proxyURL targetGetUsage accessToken (usage_payload profileArn) of
        (Inl err, cs) \<Rightarrow> (Inl err, cs)
      | (Inr b, cs) \<Rightarrow>
          (case Unmarshal_kiroUsageResult e b of
             Inl err \<Rightarrow> (Inl (''failed to parse usage response: '' @ err), cs)
           | Inr result \<Rightarrow> (Inr result, cs)))"

text \<open>
  The block \<open>if profileArn == ""\<close> of \<open>GetKiroQuota\<close>: the profile ARN to go on with, the
  requests sent and the lines logged.
\<close>

definition resolve_profileArn ::
  "env \<Rightarrow> context \<Rightarrow> string \<Rightarrow> string \<Rightarrow> string \<Rightarrow>
   string \<times> request list \<times> log_entry list" where
  "resolve_profileArn e c proxyURL accessToken profileArn =
     (if profileArn = '''' then
        (case listProfiles e c proxyURL accessToken of
           (Inl err, cs) \<Rightarrow>
             (profileArn, cs, [Warnf (''kiro quota: failed to list profiles: '' @ err)])
         | (Inr arns, cs) \<Rightarrow>
             (case arns of
                arn # _ \<Rightarrow> (arn, cs, [Debugf (''kiro quota: resolved profile ARN: '' @ arn)])
              | [] \<Rightarrow> (profileArn, cs, [])))
      else (profileArn, [], []))"

text \<open>The reply map built from the usage answer.\<close>

definition kiro_response :: "kiroUsageResult \<Rightarrow> (string \<rightharpoonup> any_value)" where
  "kiro_response usage =
     (let response =
        [''subscription_title'' \<mapsto> JString (SubscriptionTitle (SubscriptionInfo usage)),
         ''credit_usage'' \<mapsto> JNumber 0,
         ''context_usage_percent'' \<mapsto> JNumber 0,
         ''monthly_credit_limit'' \<mapsto> JNumber 0,
         ''monthly_context_limit'' \<mapsto> JNumber 100]
      in case UsageBreakdownList usage of
           [] \<Rightarrow> response
         | b # _ \<Rightarrow>
             response(''credit_usage'' \<mapsto> JNumber (CurrentUsageWithPrecision b),
                      ''monthly_credit_limit'' \<mapsto> JNumber (UsageLimitWithPrecision b)))"

text \<open>
  The error reply \<open>gin.H\<close> with the one key \<open>error\<close>, and the handler. The sources hold two versions
  of \<open>GetKiroQuota\<close>; this is the one that sends its own requests through
  \<open>makeKiroRequest\<close>. The other one hands the token to \<open>kiroauth.GetUsageLimits\<close>, a
  package outside these sources. The handler's configuration \<open>h.cfg\<close> is taken to be
  set.
\<close>

definition error_reply :: "int \<Rightarrow> string \<Rightarrow> int \<times> json_body" where
  "error_reply st msg = (st, H [''error'' \<mapsto> JString msg])"

definition GetKiroQuota :: "Handler \<Rightarrow> env \<Rightarrow> gin_Context \<Rightarrow> run" where
  "GetKiroQuota h e c =
     (let authID = Query c ''auth_id'' in
      if authID = '''' then
        \<lparr>reply = error_reply 400 ''auth_id is required'', lookups = [], calls = [], logs = []\<rparr>
      else case authManager h of
        None \<Rightarrow>
          \<lparr>reply = error_reply 500 ''auth manager not available'', lookups = [], calls = [],
           logs = []\<rparr>
      | Some GetByID \<Rightarrow>
          (case GetByID authID of (auth, ok) \<Rightarrow>
             if \<not> ok \<or> auth = None then
               \<lparr>reply = error_reply 404 ''auth not found'', lookups = [authID], calls = [],
                logs = []\<rparr>
             else
               let accessToken =
                     (case assert_string (index_Metadata (the auth) ''access_token'') of
                        Some t \<Rightarrow> t | None \<Rightarrow> '''')
               in if accessToken = '''' then
                    \<lparr>reply = error_reply 400 ''access_token not found in auth data'',
                     lookups = [authID], calls = [], logs = []\<rparr>
                  else
                    let profileArn =
                          (case assert_string (index_Metadata (the auth) ''profile_arn'') of
                             Some p \<Rightarrow> p | None \<Rightarrow> '''');
                        cx = WithTimeout (Request_Context c) 30
                    in case resolve_profileArn e cx (ProxyURL h) accessToken profileArn of
                         (profileArn', cs1, ls) \<Rightarrow>
                           (case getUsageLimits e cx (ProxyURL h) accessToken profileArn' of
                              (Inl err, cs2) \<Rightarrow>
                                \<lparr>reply = error_reply 500 (''failed to fetch usage: '' @ err),
                                 lookups = [authID], calls = cs1 @ cs2, logs = ls\<rparr>
                            | (Inr usage, cs2) \<Rightarrow>
                                \<lparr>reply = (200, H (kiro_response usage)),
                                 lookups = [authID], calls = cs1 @ cs2, logs = ls\<rparr>)))"

subsection \<open>Copilot: \<open>fetchCopilotUsage\<close>, \<open>GetCopilotQuota\<close>\<close>

definition githubAPIBaseURL :: string where
  "githubAPIBaseURL = ''https://api.github.com''"

definition copilotUserEndpoint :: string where
  "copilotUserEndpoint = ''/copilot_internal/user''"

definition copilotUserAgent :: string where
  "copilotUserAgent = ''GitHubCopilotChat/0.26.7''"

definition copilotEditorVersion :: string where
  "copilotEditorVersion = ''vscode/1.100.0''"

definition copilotPluginVersion :: string where
  "copilotPluginVersion = ''copilot-chat/0.26.7''"

definition copilotAPIVersion :: string where
  "copilotAPIVersion = ''2025-04-01''"

definition copilot_request :: "string \<Rightarrow> request" where
  "copilot_request token =
     \<lparr>Method = ''GET'', URL = githubAPIBaseURL @ copilotUserEndpoint,
      Header = [(''Authorization'', ''token '' @ token),
                (''Accept'', ''application/json''),
                (''User-Agent'', copilotUserAgent),
                (''Editor-Version'', copilotEditorVersion),
                (''Editor-Plugin-Version'', copilotPluginVersion),
                (''X-GitHub-Api-Version'', copilotAPIVersion)],
      Body = None, ctx = Background, client_timeout = 30\<rparr>"

definition fetchCopilotUsage ::
  "env \<Rightarrow> string \<Rightarrow> (string + CopilotUsageResponse) \<times> request list" where
  "fetchCopilotUsage e token =
     (let req = copilot_request token in
      (case roundTrip e req of
         TransportError err \<Rightarrow> Inl (''request failed: '' @ err)
       | ReadError st err \<Rightarrow> Inl (''failed to read response: '' @ err)
       | Response st b \<Rightarrow>
           if st \<noteq> 200 then Inl (''API returned status '' @ itoa st @ '': '' @ b)
           else (case Unmarshal_CopilotUsageResponse e b of
                   Inl err \<Rightarrow> Inl (''failed to parse response: '' @ err)
                 | Inr usage \<Rightarrow> Inr usage),
       [req]))"

definition GetCopilotQuota :: "Handler \<Rightarrow> env \<Rightarrow> gin_Context \<Rightarrow> run" where
  "GetCopilotQuota h e c =
     (let authID = Query c ''auth_id'' in
      if authID = '''' then
        \<lparr>reply = error_reply 400 ''auth_id is required'', lookups = [], calls = [], logs = []\<rparr>
      else case authManager h of
        None \<Rightarrow>
          \<lparr>reply = error_reply 500 ''auth manager not available'', lookups = [], calls = [],
           logs = []\<rparr>
      | Some GetByID \<Rightarrow>
          (case GetByID authID of (auth, ok) \<Rightarrow>
             if \<not> ok \<or> auth = None then
               \<lparr>reply = error_reply 404 ''auth not found'', lookups = [authID], calls = [],
                logs = []\<rparr>
             else
               let token =
                     (case Metadata (the auth) of
                        None \<Rightarrow> ''''
                      | Some m \<Rightarrow>
                          (case assert_string (m ''access_token'') of
                             Some t \<Rightarrow> t | None \<Rightarrow> ''''))
               in if token = '''' then
                    \<lparr>reply = error_reply 400 ''no access token found in auth'',
                     lookups = [authID], calls = [], logs = []\<rparr>
                  else
                    (case fetchCopilotUsage e token of
                       (Inl err, cs) \<Rightarrow>
                         \<lparr>reply = error_reply 500 (''failed to fetch usage: '' @ err),
                          lookups = [authID], calls = cs, logs = []\<rparr>
                     | (Inr usage, cs) \<Rightarrow>
                         \<lparr>reply = (200, Usage usage), lookups = [authID], calls = cs,
                          logs = []\<rparr>)))"

section \<open>Concrete tables, stores and providers\<close>

text \<open>Small instances of the parameters, on which the functions above are evaluated.\<close>

definition example_model :: "string \<Rightarrow> string \<Rightarrow> ModelInfo" where
  "example_model modelID owner =
     \<lparr>ID = modelID, Object = ''model'', Created = 1768908139, OwnedBy = owner, Type = owner,
      DisplayName = modelID, Description = '''', ContextLength = 200000,
      MaxCompletionTokens = 64000, SupportedEndpoints = [''/chat/completions''],
      Thinking = None\<rparr>"

definition example_thinking :: ThinkingSupport where
  "example_thinking =
     \<lparr>Min_thinking = 128, Max_thinking = 32768, ZeroAllowed = False, DynamicAllowed = True,
      Levels = []\<rparr>"

definition example_entry :: AntigravityModelConfig where
  "example_entry = \<lparr>Thinking_cfg = Some example_thinking, MaxCompletionTokens_cfg = 64000\<rparr>"

definition example_cfg :: "(string \<times> AntigravityModelConfig option) list" where
  "example_cfg =
     [(''gemini-3-pro-high'', Some example_entry),
      ('''', Some example_entry),
      (''Claude-sonnet-4-5'', Some example_entry),
      (''rev19-uic3-1p'', None)]"

text \<open>
  Two channels define the identifier \<open>shared-model\<close>; the second table also starts with a
  \<open>nil\<close> pointer.
\<close>

definition example_tables :: static_data where
  "example_tables =
     \<lparr>GetClaudeModels = [Some (example_model ''claude-opus-4-5'' ''anthropic''),
                         Some (example_model ''shared-model'' ''anthropic'')],
      GetGeminiModels = [None, Some (example_model ''shared-model'' ''google'')],
      GetGeminiVertexModels = [],
      GetGeminiCLIModels = [],
      GetAIStudioModels = [],
      GetOpenAIModels = [Some (example_model ''gpt-5'' ''openai'')],
      GetQwenModels = [],
      GetIFlowModels = [],
      GetAntigravityModelConfig = example_cfg\<rparr>"

text \<open>
  A configuration map with two identifiers that differ in case only, in the two orders in
  which a \<open>range\<close> loop can visit it.
\<close>

definition case_clash_cfg :: "(string \<times> AntigravityModelConfig option) list" where
  "case_clash_cfg = [(''M'', Some example_entry), (''m'', Some example_entry)]"

definition case_clash_tables :: "(string \<times> AntigravityModelConfig option) list \<Rightarrow> static_data" where
  "case_clash_tables cfg =
     \<lparr>GetClaudeModels = [], GetGeminiModels = [], GetGeminiVertexModels = [],
      GetGeminiCLIModels = [], GetAIStudioModels = [], GetOpenAIModels = [],
      GetQwenModels = [], GetIFlowModels = [], GetAntigravityModelConfig = cfg\<rparr>"

text \<open>
  A credential store with three accounts: \<open>acct-1\<close> holds a token and an empty profile ARN,
  \<open>acct-2\<close> holds metadata without a token, \<open>acct-3\<close> holds a token and a profile ARN.
\<close>

definition example_store :: "string \<Rightarrow> Auth option \<times> bool" where
  "example_store authID =
     (if authID = ''acct-1'' then
        (Some \<lparr>Metadata = Some [''access_token'' \<mapsto> JString ''abc'',
                                ''profile_arn'' \<mapsto> JString '''']\<rparr>, True)
      else if authID = ''acct-2'' then
        (Some \<lparr>Metadata = Some [''region'' \<mapsto> JString ''us-east-1'']\<rparr>, True)
      else if authID = ''acct-3'' then
        (Some \<lparr>Metadata = Some [''access_token'' \<mapsto> JString ''xyz'',
                                ''profile_arn'' \<mapsto> JString ''arn-0'']\<rparr>, True)
      else (None, False))"

definition example_handler :: Handler where
  "example_handler = \<lparr>authManager = Some example_store, ProxyURL = ''''\<rparr>"

definition example_ctx :: "string \<Rightarrow> gin_Context" where
  "example_ctx authID = \<lparr>query = [''auth_id'' \<mapsto> authID], Request_Context = RequestContext 7\<rparr>"

definition no_auth_id_ctx :: gin_Context where
  "no_auth_id_ctx = \<lparr>query = Map.empty, Request_Context = RequestContext 7\<rparr>"

definition example_usage :: kiroUsageResult where
  "example_usage =
     \<lparr>SubscriptionInfo = \<lparr>SubscriptionTitle = ''KIRO PRO''\<rparr>,
      UsageBreakdownList =
        [\<lparr>CurrentUsageWithPrecision = 12.5, UsageLimitWithPrecision = 50\<rparr>,
         \<lparr>CurrentUsageWithPrecision = 3, UsageLimitWithPrecision = 4\<rparr>],
      NextDateReset = 0\<rparr>"

definition example_usage_no_breakdown :: kiroUsageResult where
  "example_usage_no_breakdown =
     \<lparr>SubscriptionInfo = \<lparr>SubscriptionTitle = ''KIRO FREE''\<rparr>, UsageBreakdownList = [],
      NextDateReset = 0\<rparr>"

text \<open>
  A provider: \<open>ListProfiles\<close> answers as \<open>profiles\<close> says, \<open>GetUsageLimits\<close> answers with
  the body \<open>usage\<close>, and the Copilot endpoint answers as \<open>copilot\<close> says. The decoders know
  three bodies.
\<close>

definition example_env :: "http_result \<Rightarrow> string \<Rightarrow> http_result \<Rightarrow> env" where
  "example_env profiles usage copilot =
     \<lparr>roundTrip = (\<lambda>r.
        if Method r = ''GET'' then copilot
        else if map_of (Header r) ''x-amz-target'' = Some targetListProfiles then profiles
        else Response 200 usage),
      Unmarshal_kiroProfilesResult = (\<lambda>b.
        if b = ''two profiles'' then
          Inr \<lparr>Profiles = [\<lparr>ProfileArn = ''arn-1''\<rparr>, \<lparr>ProfileArn = ''arn-2''\<rparr>]\<rparr>
        else Inl ''invalid character''),
      Unmarshal_kiroUsageResult = (\<lambda>b.
        if b = ''usage'' then Inr example_usage
        else if b = ''no breakdown'' then Inr example_usage_no_breakdown
        else Inl ''invalid character''),
      Unmarshal_CopilotUsageResponse = (\<lambda>b. Inl ''invalid character'')\<rparr>"

text \<open>Reading one field of a \<open>gin.H\<close> reply.\<close>

definition reply_field :: "run \<Rightarrow> string \<Rightarrow> any_value option" where
  "reply_field r key = (case snd (reply r) of H m \<Rightarrow> m key | Usage u \<Rightarrow> None)"

section \<open>Properties of the library functions\<close>

subsection \<open>Lower-casing and trimming of ASCII strings\<close>

lemma isSpaceByte_code:
  "isSpaceByte c \<longleftrightarrow> (of_char c :: nat) \<in> {9, 10, 11, 12, 13, 32}"
proof -
  have "c = d \<longleftrightarrow> (of_char c :: nat) = of_char d" for d
    by simp
  then show ?thesis
    unfolding isSpaceByte_def by (simp del: of_char_eq_iff)
qed

lemma of_char_toLowerByte:
  "(of_char (toLowerByte c) :: nat) =
     (if 65 \<le> (of_char c :: nat) \<and> (of_char c :: nat) \<le> 90 then of_char c + 32 else of_char c)"
  by (simp add: toLowerByte_def less_eq_char_def)

lemma isSpaceByte_toLowerByte: "isSpaceByte (toLowerByte c) = isSpaceByte c"
  by (auto simp: isSpaceByte_code of_char_toLowerByte)

lemma ascii_TrimSpace_ToLower:
  "ascii_TrimSpace (ascii_ToLower s) = ascii_ToLower (ascii_TrimSpace s)"
  by (simp add: ascii_TrimSpace_def ascii_ToLower_def dropWhile_map rev_map comp_def
        isSpaceByte_toLowerByte)

lemma dropWhile_all_append:
  "\<forall>c \<in> set ws. P c \<Longrightarrow> dropWhile P (ws @ ys) = dropWhile P ys"
  by (induction ws) auto

lemma ascii_TrimSpace_padded:
  assumes "\<forall>c \<in> set ws. isSpaceByte c" "\<forall>c \<in> set ws'. isSpaceByte c"
  shows "ascii_TrimSpace (ws @ s @ ws') = ascii_TrimSpace s"
proof -
  have "dropWhile isSpaceByte (ws @ s @ ws') = dropWhile isSpaceByte (s @ ws')"
    using assms(1) by (rule dropWhile_all_append)
  moreover have "rev (dropWhile isSpaceByte (rev (dropWhile isSpaceByte (s @ ws')))) =
                 rev (dropWhile isSpaceByte (rev (dropWhile isSpaceByte s)))"
  proof (cases "\<forall>c \<in> set s. isSpaceByte c")
    case True
    with assms(2) have "\<forall>c \<in> set (s @ ws'). isSpaceByte c"
      by auto
    then have a: "dropWhile isSpaceByte (s @ ws') = []"
      by (simp only: dropWhile_eq_Nil_conv)
    from True have b: "dropWhile isSpaceByte s = []"
      by (simp only: dropWhile_eq_Nil_conv)
    show ?thesis by (simp only: a b)
  next
    case False
    then have "dropWhile isSpaceByte (s @ ws') = dropWhile isSpaceByte s @ ws'"
      by (auto simp: dropWhile_append1)
    then show ?thesis
      using assms(2) by (simp add: dropWhile_all_append)
  qed
  ultimately show ?thesis by (simp add: ascii_TrimSpace_def)
qed

lemma is_ascii_append: "is_ascii (xs @ ys) \<longleftrightarrow> is_ascii xs \<and> is_ascii ys"
  by (auto simp: is_ascii_def)

lemma is_ascii_spaces: "\<forall>c \<in> set ws. isSpaceByte c \<Longrightarrow> is_ascii ws"
  by (auto simp: is_ascii_def isSpaceByte_code)

lemma is_ascii_TrimSpace: "is_ascii s \<Longrightarrow> is_ascii (ascii_TrimSpace s)"
  by (auto simp: is_ascii_def ascii_TrimSpace_def dest!: set_dropWhileD)

lemma is_ascii_ToLower: "is_ascii s \<Longrightarrow> is_ascii (ascii_ToLower s)"
  by (auto simp: is_ascii_def ascii_ToLower_def of_char_toLowerByte)

text \<open>The key of the \<open>switch\<close> for an ASCII argument.\<close>

lemma go_strings_key:
  assumes "go_strings lib" "is_ascii s"
  shows "ToLower lib (TrimSpace lib s) = ascii_ToLower (ascii_TrimSpace s)"
  using assms is_ascii_TrimSpace [OF assms(2)] by (simp add: go_strings_def)

lemma go_ascii_strings: "go_strings go_ascii"
  by (simp add: go_strings_def go_ascii_def)

subsection \<open>Sorting\<close>

lemma mset_shift_left: "mset (shift_left lessf x ys) = add_mset x (mset ys)"
  by (induction ys) simp_all

lemma set_shift_left: "set (shift_left lessf x ys) = insert x (set ys)"
  by (induction ys) auto

lemma descending_shift_left:
  fixes key :: "'a \<Rightarrow> 'k::linorder"
  assumes "sorted_wrt (\<lambda>a b. key b \<le> key a) ys"
  shows "sorted_wrt (\<lambda>a b. key b \<le> key a) (shift_left (\<lambda>a b. key a < key b) x ys)"
  using assms by (induction ys) (auto simp: set_shift_left)

lemma foldl_shift_left:
  fixes key :: "'a \<Rightarrow> 'k::linorder"
  assumes "sorted_wrt (\<lambda>a b. key b \<le> key a) acc"
  shows "mset (foldl (\<lambda>prefix x. shift_left (\<lambda>a b. key a < key b) x prefix) acc xs) =
           mset acc + mset xs \<and>
         sorted_wrt (\<lambda>a b. key b \<le> key a)
           (foldl (\<lambda>prefix x. shift_left (\<lambda>a b. key a < key b) x prefix) acc xs)"
  using assms
  by (induction xs arbitrary: acc) (simp_all add: mset_shift_left descending_shift_left)

lemma insertionSort_sorts:
  fixes key :: "'a \<Rightarrow> 'k::linorder"
  shows "mset (insertionSort (\<lambda>a b. key a < key b) xs) = mset xs"
    and "sorted (map key (insertionSort (\<lambda>a b. key a < key b) xs))"
  using foldl_shift_left [of key "[]" xs]
  by (simp_all add: insertionSort_def sorted_map sorted_wrt_rev)

lemma go_ascii_sort: "go_sort go_ascii"
  by (simp add: go_sort_def go_ascii_def insertionSort_sorts)

lemma go_sort_mset:
  fixes key :: "ModelInfo \<Rightarrow> string"
  shows "go_sort lib \<Longrightarrow> mset (sort_Slice lib (\<lambda>a b. key a < key b) xs) = mset xs"
  by (simp add: go_sort_def)

lemma go_sort_set:
  fixes key :: "ModelInfo \<Rightarrow> string"
  shows "go_sort lib \<Longrightarrow> set (sort_Slice lib (\<lambda>a b. key a < key b) xs) = set xs"
  using go_sort_mset [of lib key xs] by (metis set_mset_mset)

lemma go_sort_sorted:
  fixes key :: "ModelInfo \<Rightarrow> string"
  shows "go_sort lib \<Longrightarrow> sorted (map key (sort_Slice lib (\<lambda>a b. key a < key b) xs))"
  by (simp add: go_sort_def)

text \<open>Keys that are pairwise different leave one sorted permutation only.\<close>

lemma go_sort_unique:
  fixes key :: "ModelInfo \<Rightarrow> string"
  assumes "go_sort lib" "mset xs = mset ys" "inj_on key (set xs)"
  shows "sort_Slice lib (\<lambda>a b. key a < key b) xs = sort_Slice lib (\<lambda>a b. key a < key b) ys"
proof -
  let ?s = "sort_Slice lib (\<lambda>a b. key a < key b)"
  have "sort_key key xs = ?s xs"
    using assms(1,3) by (intro sort_key_inj_key_eq) (simp_all add: go_sort_mset go_sort_sorted)
  moreover have "sort_key key xs = ?s ys"
    using assms by (intro sort_key_inj_key_eq) (simp_all add: go_sort_mset go_sort_sorted)
  ultimately show ?thesis by simp
qed

section \<open>Properties of the capability registry\<close>

subsection \<open>The \<open>antigravity\<close> list\<close>

lemma antigravity_collect_eq:
  "antigravity_collect models cfg =
     models @ map (\<lambda>(k, e). antigravity_ModelInfo k (the e))
                (filter (\<lambda>(k, e). k \<noteq> '''' \<and> e \<noteq> None) cfg)"
  by (induction models cfg rule: antigravity_collect.induct) auto

lemma ID_antigravity_ModelInfo: "ID (antigravity_ModelInfo k e) = k"
  by (simp add: antigravity_ModelInfo_def)

lemma set_antigravity_collect:
  "set (antigravity_collect [] cfg) =
     {antigravity_ModelInfo k e | k e. (k, Some e) \<in> set cfg \<and> k \<noteq> ''''}"
proof -
  have "set (antigravity_collect [] cfg) =
          (\<lambda>(k, e). antigravity_ModelInfo k (the e)) `
            {(k, e). (k, e) \<in> set cfg \<and> k \<noteq> '''' \<and> e \<noteq> None}"
    by (auto simp: antigravity_collect_eq)
  also have "\<dots> = {antigravity_ModelInfo k e | k e. (k, Some e) \<in> set cfg \<and> k \<noteq> ''''}"
    by force
  finally show ?thesis .
qed

lemma set_antigravity_models:
  assumes "go_sort lib"
  shows "set (antigravity_models lib cfg) =
     {Some (antigravity_ModelInfo k e) | k e. (k, Some e) \<in> set cfg \<and> k \<noteq> ''''}"
proof (cases "cfg = []")
  case True
  then show ?thesis by (simp add: antigravity_models_def)
next
  case False
  then have "set (antigravity_models lib cfg) = Some ` set (antigravity_collect [] cfg)"
    using go_sort_set [OF assms, of "\<lambda>m. ToLower lib (ID m)"]
    by (simp add: antigravity_models_def)
  then show ?thesis
    unfolding set_antigravity_collect by auto
qed

lemma sorted_antigravity_models:
  assumes "go_sort lib"
  shows "sorted (map (\<lambda>m. ToLower lib (ID (the m))) (antigravity_models lib cfg))"
  using go_sort_sorted [OF assms, of "\<lambda>m. ToLower lib (ID m)"]
  by (simp add: antigravity_models_def o_def)

lemma mset_antigravity_collect:
  assumes "distinct (map fst cfg)" "distinct (map fst cfg')" "set cfg' = set cfg"
  shows "mset (antigravity_collect [] cfg') = mset (antigravity_collect [] cfg)"
proof -
  have "distinct cfg" "distinct cfg'"
    using assms(1,2) by (simp_all add: distinct_map)
  with assms(3) have "mset cfg' = mset cfg"
    by (simp add: set_eq_iff_mset_eq_distinct)
  then show ?thesis
    by (simp add: antigravity_collect_eq)
qed

lemma inj_on_key_antigravity_collect:
  assumes "distinct (map fst cfg)"
    and "inj_on (ToLower lib) {k. k \<noteq> '''' \<and> (\<exists>e. (k, Some e) \<in> set cfg)}"
  shows "inj_on (\<lambda>m. ToLower lib (ID m)) (set (antigravity_collect [] cfg))"
proof (rule inj_onI)
  fix x y
  assume x: "x \<in> set (antigravity_collect [] cfg)"
    and y: "y \<in> set (antigravity_collect [] cfg)"
    and eq: "ToLower lib (ID x) = ToLower lib (ID y)"
  from x obtain k e
    where x': "x = antigravity_ModelInfo k e" "(k, Some e) \<in> set cfg" "k \<noteq> ''''"
    unfolding set_antigravity_collect by blast
  from y obtain k' e'
    where y': "y = antigravity_ModelInfo k' e'" "(k', Some e') \<in> set cfg" "k' \<noteq> ''''"
    unfolding set_antigravity_collect by blast
  from eq x' y' have "ToLower lib k = ToLower lib k'"
    by (simp add: ID_antigravity_ModelInfo)
  with assms(2) x' y' have "k = k'"
    by (auto dest!: inj_onD)
  with assms(1) x'(2) y'(2) have "e = e'"
    by (metis map_of_is_SomeI option.inject)
  with \<open>k = k'\<close> x' y' show "x = y" by simp
qed

text \<open>
  When no two identifiers kept agree after lower-casing, the sorted list is the same for
  every order in which the map is visited.
\<close>

lemma antigravity_models_order_irrelevant:
  assumes "go_sort lib"
    and "distinct (map fst cfg)" "distinct (map fst cfg')" "set cfg' = set cfg"
    and "inj_on (ToLower lib) {k. k \<noteq> '''' \<and> (\<exists>e. (k, Some e) \<in> set cfg)}"
  shows "antigravity_models lib cfg' = antigravity_models lib cfg"
proof -
  let ?f = "\<lambda>m. ToLower lib (ID m)"
  have "sort_Slice lib (\<lambda>a b. ?f a < ?f b) (antigravity_collect [] cfg) =
        sort_Slice lib (\<lambda>a b. ?f a < ?f b) (antigravity_collect [] cfg')"
  proof (rule go_sort_unique [OF assms(1)])
    show "mset (antigravity_collect [] cfg) = mset (antigravity_collect [] cfg')"
      using mset_antigravity_collect [OF assms(2,3,4)] by simp
    show "inj_on ?f (set (antigravity_collect [] cfg))"
      by (rule inj_on_key_antigravity_collect [OF assms(2,5)])
  qed
  moreover have "cfg' = [] \<longleftrightarrow> cfg = []"
    using assms(4) by (metis set_empty)
  ultimately show ?thesis
    by (simp add: antigravity_models_def)
qed

lemma ascii_key_antigravity:
  "is_ascii ''antigravity''" "ascii_ToLower (ascii_TrimSpace ''antigravity'') = ''antigravity''"
  by code_simp+

lemma GetStaticModelDefinitionsByChannel_antigravity:
  "go_strings lib \<Longrightarrow>
   GetStaticModelDefinitionsByChannel lib sd ''antigravity'' =
     antigravity_models lib (GetAntigravityModelConfig sd)"
  by (simp add: GetStaticModelDefinitionsByChannel_def go_strings_key ascii_key_antigravity)

subsection \<open>The scan of \<open>LookupStaticModelInfo\<close>\<close>

lemma lookup_in_models_None:
  "(\<forall>m. Some m \<in> set t \<longrightarrow> ID m \<noteq> modelID) \<Longrightarrow> lookup_in_models modelID t = None"
  by (induction t) (auto split: option.splits)

lemma lookup_in_models_first:
  "(\<forall>m. Some m \<in> set xs \<longrightarrow> ID m \<noteq> modelID) \<Longrightarrow> ID mi = modelID \<Longrightarrow>
   lookup_in_models modelID (xs @ Some mi # ys) = Some mi"
  by (induction xs) (auto split: option.splits)

lemma lookup_in_all_None:
  "(\<forall>t \<in> set ts. \<forall>m. Some m \<in> set t \<longrightarrow> ID m \<noteq> modelID) \<Longrightarrow>
   lookup_in_all modelID ts = None"
  by (induction ts) (auto simp: lookup_in_models_None)

lemma lookup_in_all_first:
  "(\<forall>t \<in> set pre. \<forall>m. Some m \<in> set t \<longrightarrow> ID m \<noteq> modelID) \<Longrightarrow>
   lookup_in_models modelID t = Some mi \<Longrightarrow>
   lookup_in_all modelID (pre @ t # post) = Some mi"
  by (induction pre) (auto simp: lookup_in_models_None)

lemma allModels_update_cfg:
  "allModels (sd\<lparr>GetAntigravityModelConfig := cfg\<rparr>) = allModels sd"
  by (simp add: allModels_def)

subsection \<open>Evaluation with the ASCII library\<close>

lemma go_ascii_sel:
  "ToLower go_ascii = ascii_ToLower"
  "TrimSpace go_ascii = ascii_TrimSpace"
  "sort_Slice go_ascii = insertionSort"
  by (simp_all add: go_ascii_def)

lemma key_examples:
  "ascii_ToLower (ascii_TrimSpace ''  ClaUde  '') = ''claude''"
  "ascii_ToLower (ascii_TrimSpace ''claude'') = ''claude''"
  "ascii_ToLower (ascii_TrimSpace ''github-copilot'') = ''github-copilot''"
  "ascii_ToLower ''CODEX'' = ''codex''"
  "ascii_ToLower ''codex'' = ''codex''"
  "is_ascii ''CODEX''"
  "is_ascii ''codex''"
  by code_simp+

lemma example_cfg_lower:
  "ascii_ToLower ''gemini-3-pro-high'' = ''gemini-3-pro-high''"
  "ascii_ToLower ''Claude-sonnet-4-5'' = ''claude-sonnet-4-5''"
  "ascii_ToLower ''M'' = ''m''"
  "ascii_ToLower ''m'' = ''m''"
  by code_simp+

lemma example_cfg_list:
  "GetStaticModelDefinitionsByChannel go_ascii example_tables ''antigravity'' =
     [Some (antigravity_ModelInfo ''Claude-sonnet-4-5'' example_entry),
      Some (antigravity_ModelInfo ''gemini-3-pro-high'' example_entry)]"
  by (simp add: GetStaticModelDefinitionsByChannel_antigravity go_ascii_strings
        antigravity_models_def go_ascii_sel insertionSort_def example_tables_def
        example_cfg_def ID_antigravity_ModelInfo example_cfg_lower)

lemma example_cfg_inj:
  "inj_on (ToLower go_ascii) {k. k \<noteq> '''' \<and> (\<exists>e. (k, Some e) \<in> set example_cfg)}"
proof -
  have "{k. k \<noteq> '''' \<and> (\<exists>e. (k, Some e) \<in> set example_cfg)} =
          {''gemini-3-pro-high'', ''Claude-sonnet-4-5''}"
    by (auto simp: example_cfg_def)
  then show ?thesis
    by (simp add: example_cfg_lower go_ascii_sel)
qed

subsection \<open>Channel keys\<close>

text \<open>
  Claim C6. Whatever \<open>strings.ToLower\<close> and \<open>strings.TrimSpace\<close> compute,
  \<open>GetStaticModelDefinitionsByChannel\<close> looks at its argument only through
  \<open>ToLower (TrimSpace channel)\<close>: two keys that agree after trimming and lower-casing give
  the same list, and a key that, trimmed and lower-cased, is none of the nine keys of the
  \<open>switch\<close> gives the empty list. The function returns a list in every case; it has no
  error result. With the library's behaviour on ASCII strings: two ASCII keys that differ
  in the case of letters only give the same list, and so do an ASCII key and the same key
  with white space around it.
\<close>

theorem GetStaticModelDefinitionsByChannel_key:
  "(ToLower lib (TrimSpace lib channel) = ToLower lib (TrimSpace lib channel') \<longrightarrow>
      GetStaticModelDefinitionsByChannel lib sd channel =
      GetStaticModelDefinitionsByChannel lib sd channel') \<and>
   (ToLower lib (TrimSpace lib other) \<notin> set known_channels \<longrightarrow>
      GetStaticModelDefinitionsByChannel lib sd other = []) \<and>
   (go_strings lib \<and> is_ascii cased \<and> is_ascii cased' \<and>
    ascii_ToLower cased = ascii_ToLower cased' \<longrightarrow>
      GetStaticModelDefinitionsByChannel lib sd cased =
      GetStaticModelDefinitionsByChannel lib sd cased') \<and>
   (go_strings lib \<and> is_ascii padded \<and>
    (\<forall>c \<in> set ws. isSpaceByte c) \<and> (\<forall>c \<in> set ws'. isSpaceByte c) \<longrightarrow>
      GetStaticModelDefinitionsByChannel lib sd (ws @ padded @ ws') =
      GetStaticModelDefinitionsByChannel lib sd padded)"
proof (intro conjI impI)
  assume "ToLower lib (TrimSpace lib channel) = ToLower lib (TrimSpace lib channel')"
  then show "GetStaticModelDefinitionsByChannel lib sd channel =
      GetStaticModelDefinitionsByChannel lib sd channel'"
    by (simp add: GetStaticModelDefinitionsByChannel_def)
next
  assume "ToLower lib (TrimSpace lib other) \<notin> set known_channels"
  then show "GetStaticModelDefinitionsByChannel lib sd other = []"
    by (simp add: GetStaticModelDefinitionsByChannel_def known_channels_def)
next
  assume a: "go_strings lib \<and> is_ascii cased \<and> is_ascii cased' \<and>
    ascii_ToLower cased = ascii_ToLower cased'"
  then have "ascii_ToLower (ascii_TrimSpace cased) = ascii_ToLower (ascii_TrimSpace cased')"
    by (simp flip: ascii_TrimSpace_ToLower)
  with a have "ToLower lib (TrimSpace lib cased) = ToLower lib (TrimSpace lib cased')"
    by (simp add: go_strings_key)
  then show "GetStaticModelDefinitionsByChannel lib sd cased =
      GetStaticModelDefinitionsByChannel lib sd cased'"
    by (simp add: GetStaticModelDefinitionsByChannel_def)
next
  assume a: "go_strings lib \<and> is_ascii padded \<and>
    (\<forall>c \<in> set ws. isSpaceByte c) \<and> (\<forall>c \<in> set ws'. isSpaceByte c)"
  then have "is_ascii (ws @ padded @ ws')"
    by (simp add: is_ascii_append is_ascii_spaces)
  with a have "ToLower lib (TrimSpace lib (ws @ padded @ ws')) =
               ToLower lib (TrimSpace lib padded)"
    by (simp add: go_strings_key ascii_TrimSpace_padded)
  then show "GetStaticModelDefinitionsByChannel lib sd (ws @ padded @ ws') =
      GetStaticModelDefinitionsByChannel lib sd padded"
    by (simp add: GetStaticModelDefinitionsByChannel_def)
qed

theorem GetStaticModelDefinitionsByChannel_key_witness:
  "ToLower go_ascii (TrimSpace go_ascii ''  ClaUde  '') =
   ToLower go_ascii (TrimSpace go_ascii ''claude'') \<and>
   GetStaticModelDefinitionsByChannel go_ascii example_tables ''  ClaUde  '' =
   GetStaticModelDefinitionsByChannel go_ascii example_tables ''claude'' \<and>
   GetStaticModelDefinitionsByChannel go_ascii example_tables ''claude'' =
     [Some (example_model ''claude-opus-4-5'' ''anthropic''),
      Some (example_model ''shared-model'' ''anthropic'')] \<and>
   ToLower go_ascii (TrimSpace go_ascii ''github-copilot'') \<notin> set known_channels \<and>
   GetStaticModelDefinitionsByChannel go_ascii example_tables ''github-copilot'' = [] \<and>
   go_strings go_ascii \<and> is_ascii ''CODEX'' \<and> is_ascii ''codex'' \<and>
   ascii_ToLower ''CODEX'' = ascii_ToLower ''codex'' \<and>
   GetStaticModelDefinitionsByChannel go_ascii example_tables ''CODEX'' =
   GetStaticModelDefinitionsByChannel go_ascii example_tables ''codex'' \<and>
   isSpaceByte (CHR 0x09) \<and> isSpaceByte (CHR '' '') \<and> isSpaceByte (CHR 0x0A) \<and>
   GetStaticModelDefinitionsByChannel go_ascii example_tables
     ([CHR 0x09, CHR '' ''] @ ''codex'' @ [CHR 0x0A]) =
   GetStaticModelDefinitionsByChannel go_ascii example_tables ''codex''"
proof -
  have k: "ToLower go_ascii (TrimSpace go_ascii ''  ClaUde  '') =
           ToLower go_ascii (TrimSpace go_ascii ''claude'')"
    by (simp add: go_ascii_sel key_examples)
  have u: "ToLower go_ascii (TrimSpace go_ascii ''github-copilot'') \<notin> set known_channels"
    by (simp add: go_ascii_sel key_examples known_channels_def)
  have l: "go_strings go_ascii \<and> is_ascii ''CODEX'' \<and> is_ascii ''codex'' \<and>
           ascii_ToLower ''CODEX'' = ascii_ToLower ''codex''"
    by (simp add: go_ascii_strings key_examples)
  have s: "isSpaceByte (CHR 0x09)" "isSpaceByte (CHR '' '')" "isSpaceByte (CHR 0x0A)"
    by (simp_all add: isSpaceByte_def)
  then have w: "go_strings go_ascii \<and> is_ascii ''codex'' \<and>
                (\<forall>c \<in> set [CHR 0x09, CHR '' '']. isSpaceByte c) \<and>
                (\<forall>c \<in> set [CHR 0x0A]. isSpaceByte c)"
    by (simp add: go_ascii_strings key_examples)
  have c: "GetStaticModelDefinitionsByChannel go_ascii example_tables ''claude'' =
     [Some (example_model ''claude-opus-4-5'' ''anthropic''),
      Some (example_model ''shared-model'' ''anthropic'')]"
    by (simp add: GetStaticModelDefinitionsByChannel_def go_ascii_sel key_examples
          example_tables_def)
  note t = GetStaticModelDefinitionsByChannel_key
    [where lib = go_ascii and channel = "''  ClaUde  ''" and channel' = "''claude''"
       and sd = example_tables and cased = "''CODEX''" and cased' = "''codex''"
       and ws = "[CHR 0x09, CHR '' '']" and ws' = "[CHR 0x0A]" and padded = "''codex''"
       and other = "''github-copilot''"]
  from t k have r1: "GetStaticModelDefinitionsByChannel go_ascii example_tables ''  ClaUde  '' =
      GetStaticModelDefinitionsByChannel go_ascii example_tables ''claude''"
    by blast
  from t u have r2:
    "GetStaticModelDefinitionsByChannel go_ascii example_tables ''github-copilot'' = []"
    by blast
  from t l have r3: "GetStaticModelDefinitionsByChannel go_ascii example_tables ''CODEX'' =
      GetStaticModelDefinitionsByChannel go_ascii example_tables ''codex''"
    by blast
  from t w have r4: "GetStaticModelDefinitionsByChannel go_ascii example_tables
     ([CHR 0x09, CHR '' ''] @ ''codex'' @ [CHR 0x0A]) =
     GetStaticModelDefinitionsByChannel go_ascii example_tables ''codex''"
    by blast
  from k l s u c r1 r2 r3 r4 show ?thesis
    by blast
qed

subsection \<open>The list derived from the configuration map\<close>

text \<open>
  Claim C7, as stated, at a configuration map whose two identifiers \<open>M\<close> and \<open>m\<close> differ in
  case only: both orders of visiting the map are orders of the same map, and the two
  calls return the two descriptors in different orders. The comparison of lower-cased
  identifiers does not separate them, and the insertion sort that \<open>sort.Slice\<close> runs on a
  slice of two leaves them as the visit produced them.
\<close>

theorem antigravity_order_counterexample:
  "go_strings go_ascii \<and> go_sort go_ascii \<and>
   distinct (map fst case_clash_cfg) \<and> distinct (map fst (rev case_clash_cfg)) \<and>
   set (rev case_clash_cfg) = set case_clash_cfg \<and>
   GetStaticModelDefinitionsByChannel go_ascii (case_clash_tables case_clash_cfg)
     ''antigravity'' =
     [Some (antigravity_ModelInfo ''M'' example_entry),
      Some (antigravity_ModelInfo ''m'' example_entry)] \<and>
   GetStaticModelDefinitionsByChannel go_ascii (case_clash_tables (rev case_clash_cfg))
     ''antigravity'' =
     [Some (antigravity_ModelInfo ''m'' example_entry),
      Some (antigravity_ModelInfo ''M'' example_entry)] \<and>
   GetStaticModelDefinitionsByChannel go_ascii (case_clash_tables (rev case_clash_cfg))
     ''antigravity'' \<noteq>
   GetStaticModelDefinitionsByChannel go_ascii (case_clash_tables case_clash_cfg)
     ''antigravity''"
proof -
  have "set (rev case_clash_cfg) = set case_clash_cfg"
    by (rule set_rev)
  then show ?thesis
    by (simp add: GetStaticModelDefinitionsByChannel_antigravity go_ascii_strings
          go_ascii_sort antigravity_models_def go_ascii_sel insertionSort_def
          case_clash_tables_def ID_antigravity_ModelInfo example_cfg_lower
          antigravity_ModelInfo_def)
      (simp add: case_clash_cfg_def ID_antigravity_ModelInfo example_cfg_lower
          antigravity_ModelInfo_def)
qed

text \<open>
  Claim C7, amended. Let \<open>sort.Slice\<close> return a sorted permutation and let the library
  lower-case and trim ASCII strings as written out above. For a configuration map (each
  key once), the list returned for \<open>antigravity\<close> holds exactly the descriptors built from
  the entries with a non-empty identifier and a non-\<open>nil\<close> override, so no element is
  \<open>nil\<close> and none has an empty identifier; it is sorted in ascending order of
  \<open>strings.ToLower\<close> of the identifier; and when no two identifiers kept agree after
  \<open>strings.ToLower\<close>, every call over the same map returns the same list, whatever the
  order in which the map is visited.
\<close>

theorem antigravity_channel_sorted:
  assumes "go_strings lib" "go_sort lib"
    and "distinct (map fst (GetAntigravityModelConfig sd))"
  shows "set (GetStaticModelDefinitionsByChannel lib sd ''antigravity'') =
           {Some (antigravity_ModelInfo k e) | k e.
              (k, Some e) \<in> set (GetAntigravityModelConfig sd) \<and> k \<noteq> ''''} \<and>
         (\<forall>m \<in> set (GetStaticModelDefinitionsByChannel lib sd ''antigravity'').
            \<exists>mi. m = Some mi \<and> ID mi \<noteq> '''') \<and>
         sorted (map (\<lambda>m. ToLower lib (ID (the m)))
                   (GetStaticModelDefinitionsByChannel lib sd ''antigravity'')) \<and>
         (\<forall>sd'. distinct (map fst (GetAntigravityModelConfig sd')) \<and>
                set (GetAntigravityModelConfig sd') = set (GetAntigravityModelConfig sd) \<and>
                inj_on (ToLower lib)
                  {k. k \<noteq> '''' \<and> (\<exists>e. (k, Some e) \<in> set (GetAntigravityModelConfig sd))} \<longrightarrow>
                GetStaticModelDefinitionsByChannel lib sd' ''antigravity'' =
                GetStaticModelDefinitionsByChannel lib sd ''antigravity'')"
proof (intro conjI)
  note g = GetStaticModelDefinitionsByChannel_antigravity [OF assms(1)]
  show "set (GetStaticModelDefinitionsByChannel lib sd ''antigravity'') =
           {Some (antigravity_ModelInfo k e) | k e.
              (k, Some e) \<in> set (GetAntigravityModelConfig sd) \<and> k \<noteq> ''''}"
    by (simp only: g set_antigravity_models [OF assms(2)])
  then show "\<forall>m \<in> set (GetStaticModelDefinitionsByChannel lib sd ''antigravity'').
            \<exists>mi. m = Some mi \<and> ID mi \<noteq> ''''"
    by (auto simp: ID_antigravity_ModelInfo)
  show "sorted (map (\<lambda>m. ToLower lib (ID (the m)))
                   (GetStaticModelDefinitionsByChannel lib sd ''antigravity''))"
    by (simp only: g sorted_antigravity_models [OF assms(2)])
  show "\<forall>sd'. distinct (map fst (GetAntigravityModelConfig sd')) \<and>
                set (GetAntigravityModelConfig sd') = set (GetAntigravityModelConfig sd) \<and>
                inj_on (ToLower lib)
                  {k. k \<noteq> '''' \<and> (\<exists>e. (k, Some e) \<in> set (GetAntigravityModelConfig sd))} \<longrightarrow>
                GetStaticModelDefinitionsByChannel lib sd' ''antigravity'' =
                GetStaticModelDefinitionsByChannel lib sd ''antigravity''"
    using assms(2,3)
    by (auto simp only: g intro: antigravity_models_order_irrelevant)
qed

theorem antigravity_channel_sorted_witness:
  "go_strings go_ascii \<and> go_sort go_ascii \<and>
   distinct (map fst (GetAntigravityModelConfig example_tables)) \<and>
   GetStaticModelDefinitionsByChannel go_ascii example_tables ''antigravity'' =
     [Some (antigravity_ModelInfo ''Claude-sonnet-4-5'' example_entry),
      Some (antigravity_ModelInfo ''gemini-3-pro-high'' example_entry)] \<and>
   sorted (map (\<lambda>m. ToLower go_ascii (ID (the m)))
             (GetStaticModelDefinitionsByChannel go_ascii example_tables ''antigravity'')) \<and>
   distinct (map fst (rev example_cfg)) \<and> set (rev example_cfg) = set example_cfg \<and>
   inj_on (ToLower go_ascii) {k. k \<noteq> '''' \<and> (\<exists>e. (k, Some e) \<in> set example_cfg)} \<and>
   GetStaticModelDefinitionsByChannel go_ascii
     (example_tables\<lparr>GetAntigravityModelConfig := rev example_cfg\<rparr>) ''antigravity'' =
   GetStaticModelDefinitionsByChannel go_ascii example_tables ''antigravity''"
proof -
  have d: "distinct (map fst (GetAntigravityModelConfig example_tables))"
    by (simp add: example_tables_def example_cfg_def)
  have c: "GetAntigravityModelConfig example_tables = example_cfg"
    by (simp add: example_tables_def)
  have d': "distinct (map fst (rev example_cfg))"
    using d c by (simp add: distinct_rev flip: rev_map)
  note t = antigravity_channel_sorted [OF go_ascii_strings go_ascii_sort d]
  from t have s: "sorted (map (\<lambda>m. ToLower go_ascii (ID (the m)))
             (GetStaticModelDefinitionsByChannel go_ascii example_tables ''antigravity''))"
    by blast
  from t have "\<forall>sd'. distinct (map fst (GetAntigravityModelConfig sd')) \<and>
      set (GetAntigravityModelConfig sd') = set (GetAntigravityModelConfig example_tables) \<and>
      inj_on (ToLower go_ascii)
        {k. k \<noteq> '''' \<and> (\<exists>e. (k, Some e) \<in> set (GetAntigravityModelConfig example_tables))} \<longrightarrow>
      GetStaticModelDefinitionsByChannel go_ascii sd' ''antigravity'' =
      GetStaticModelDefinitionsByChannel go_ascii example_tables ''antigravity''"
    by blast
  from this [rule_format, of "example_tables\<lparr>GetAntigravityModelConfig := rev example_cfg\<rparr>"]
    d' example_cfg_inj c
  have r: "GetStaticModelDefinitionsByChannel go_ascii
     (example_tables\<lparr>GetAntigravityModelConfig := rev example_cfg\<rparr>) ''antigravity'' =
   GetStaticModelDefinitionsByChannel go_ascii example_tables ''antigravity''"
    by simp
  from d d' c s r example_cfg_inj example_cfg_list go_ascii_strings go_ascii_sort
  show ?thesis
    by simp
qed

subsection \<open>Lookup by identifier\<close>

text \<open>
  Claim C8. \<open>LookupStaticModelInfo\<close> returns \<open>nil\<close> for the empty identifier. For a
  non-empty identifier, when \<open>t\<close> is the first table in the scan order
  (\<^const>\<open>allModels\<close>) that holds a descriptor with this identifier and \<open>mi\<close> is the first
  such descriptor in \<open>t\<close>, the result is \<open>mi\<close>, whatever the later tables and the
  configuration map hold. When no table holds the identifier, the result is built from the
  configuration map. The result is a function of the tables and of the map alone, so two
  calls over the same tables return the same descriptor.
\<close>

theorem LookupStaticModelInfo_first_match:
  "LookupStaticModelInfo sd '''' = None \<and>
   (modelID \<noteq> '''' \<and> allModels sd = pre @ t # post \<and>
    (\<forall>t' \<in> set pre. \<forall>m. Some m \<in> set t' \<longrightarrow> ID m \<noteq> modelID) \<and>
    t = xs @ Some mi # ys \<and> (\<forall>m. Some m \<in> set xs \<longrightarrow> ID m \<noteq> modelID) \<and> ID mi = modelID \<longrightarrow>
      LookupStaticModelInfo sd modelID = Some mi \<and>
      (\<forall>cfg. LookupStaticModelInfo (sd\<lparr>GetAntigravityModelConfig := cfg\<rparr>) modelID = Some mi)) \<and>
   (otherID \<noteq> '''' \<and>
    (\<forall>t' \<in> set (allModels sd). \<forall>m. Some m \<in> set t' \<longrightarrow> ID m \<noteq> otherID) \<longrightarrow>
      LookupStaticModelInfo sd otherID =
        (case map_of (GetAntigravityModelConfig sd) otherID of
           Some (Some cfg) \<Rightarrow> Some (lookup_ModelInfo otherID cfg)
         | _ \<Rightarrow> None)) \<and>
   (allModels sd' = allModels sd \<and>
    map_of (GetAntigravityModelConfig sd') = map_of (GetAntigravityModelConfig sd) \<longrightarrow>
      LookupStaticModelInfo sd' anyID = LookupStaticModelInfo sd anyID)"
proof (intro conjI impI)
  show "LookupStaticModelInfo sd '''' = None"
    by (simp add: LookupStaticModelInfo_def)
next
  assume a: "modelID \<noteq> '''' \<and> allModels sd = pre @ t # post \<and>
    (\<forall>t' \<in> set pre. \<forall>m. Some m \<in> set t' \<longrightarrow> ID m \<noteq> modelID) \<and>
    t = xs @ Some mi # ys \<and> (\<forall>m. Some m \<in> set xs \<longrightarrow> ID m \<noteq> modelID) \<and> ID mi = modelID"
  then have "lookup_in_models modelID t = Some mi"
    by (simp add: lookup_in_models_first)
  with a have f: "lookup_in_all modelID (allModels sd) = Some mi"
    by (simp add: lookup_in_all_first)
  with a show "LookupStaticModelInfo sd modelID = Some mi"
    by (simp add: LookupStaticModelInfo_def)
  from a f show "\<forall>cfg. LookupStaticModelInfo (sd\<lparr>GetAntigravityModelConfig := cfg\<rparr>) modelID = Some mi"
    by (simp add: LookupStaticModelInfo_def allModels_update_cfg)
next
  assume "otherID \<noteq> '''' \<and>
    (\<forall>t' \<in> set (allModels sd). \<forall>m. Some m \<in> set t' \<longrightarrow> ID m \<noteq> otherID)"
  then show "LookupStaticModelInfo sd otherID =
        (case map_of (GetAntigravityModelConfig sd) otherID of
           Some (Some cfg) \<Rightarrow> Some (lookup_ModelInfo otherID cfg)
         | _ \<Rightarrow> None)"
    by (simp add: LookupStaticModelInfo_def lookup_in_all_None)
next
  assume "allModels sd' = allModels sd \<and>
    map_of (GetAntigravityModelConfig sd') = map_of (GetAntigravityModelConfig sd)"
  then have "allModels sd' = allModels sd"
    and "map_of (GetAntigravityModelConfig sd') anyID =
         map_of (GetAntigravityModelConfig sd) anyID"
    by simp_all
  then show "LookupStaticModelInfo sd' anyID = LookupStaticModelInfo sd anyID"
    by (simp add: LookupStaticModelInfo_def split: option.split)
qed

theorem LookupStaticModelInfo_first_match_witness:
  "allModels example_tables =
     [] @ GetClaudeModels example_tables #
     [GetGeminiModels example_tables, [], [], [], GetOpenAIModels example_tables, [], []] \<and>
   GetClaudeModels example_tables =
     [Some (example_model ''claude-opus-4-5'' ''anthropic'')] @
     Some (example_model ''shared-model'' ''anthropic'') # [] \<and>
   Some (example_model ''shared-model'' ''google'') \<in> set (GetGeminiModels example_tables) \<and>
   LookupStaticModelInfo example_tables ''shared-model'' =
     Some (example_model ''shared-model'' ''anthropic'') \<and>
   LookupStaticModelInfo example_tables ''gemini-3-pro-high'' =
     Some (lookup_ModelInfo ''gemini-3-pro-high'' example_entry) \<and>
   LookupStaticModelInfo example_tables ''rev19-uic3-1p'' = None \<and>
   LookupStaticModelInfo (example_tables\<lparr>GetAntigravityModelConfig := rev example_cfg\<rparr>)
     ''gemini-3-pro-high'' = LookupStaticModelInfo example_tables ''gemini-3-pro-high''"
proof -
  have a: "allModels example_tables =
     [] @ GetClaudeModels example_tables #
     [GetGeminiModels example_tables, [], [], [], GetOpenAIModels example_tables, [], []]"
    by (simp add: allModels_def example_tables_def)
  have c: "GetClaudeModels example_tables =
     [Some (example_model ''claude-opus-4-5'' ''anthropic'')] @
     Some (example_model ''shared-model'' ''anthropic'') # []"
    by (simp add: example_tables_def)
  have g: "Some (example_model ''shared-model'' ''google'') \<in> set (GetGeminiModels example_tables)"
    by (simp add: example_tables_def)
  have n: "\<forall>m. Some m \<in> set [Some (example_model ''claude-opus-4-5'' ''anthropic'')] \<longrightarrow>
             ID m \<noteq> ''shared-model''"
    by (simp add: example_model_def)
  have i: "ID (example_model ''shared-model'' ''anthropic'') = ''shared-model''"
    by (simp add: example_model_def)
  have o: "\<forall>t' \<in> set (allModels example_tables). \<forall>m. Some m \<in> set t' \<longrightarrow> ID m \<noteq> k"
    if "k \<notin> {''claude-opus-4-5'', ''shared-model'', ''gpt-5''}" for k
    using that by (auto simp: allModels_def example_tables_def example_model_def)
  have m: "map_of (GetAntigravityModelConfig
             (example_tables\<lparr>GetAntigravityModelConfig := rev example_cfg\<rparr>)) =
           map_of (GetAntigravityModelConfig example_tables)"
    by (simp add: example_tables_def example_cfg_def fun_eq_iff)
  note t1 = LookupStaticModelInfo_first_match
    [of example_tables "''shared-model''" "[]" "GetClaudeModels example_tables"
        "[GetGeminiModels example_tables, [], [], [], GetOpenAIModels example_tables, [], []]"
        "[Some (example_model ''claude-opus-4-5'' ''anthropic'')]"
        "example_model ''shared-model'' ''anthropic''" "[]" "''gemini-3-pro-high''"
        "example_tables\<lparr>GetAntigravityModelConfig := rev example_cfg\<rparr>" "''gemini-3-pro-high''"]
  note t2 = LookupStaticModelInfo_first_match
    [of example_tables _ _ _ _ _ _ _ "''rev19-uic3-1p''"]
  have r1: "LookupStaticModelInfo example_tables ''shared-model'' =
     Some (example_model ''shared-model'' ''anthropic'')"
    using t1 a c n i by simp
  have r2: "LookupStaticModelInfo example_tables ''gemini-3-pro-high'' =
     Some (lookup_ModelInfo ''gemini-3-pro-high'' example_entry)"
    using t1 o [of "''gemini-3-pro-high''"]
    by (simp add: example_tables_def example_cfg_def)
  have r3: "LookupStaticModelInfo example_tables ''rev19-uic3-1p'' = None"
    using t2 o [of "''rev19-uic3-1p''"]
    by (simp add: example_tables_def example_cfg_def)
  have r4: "LookupStaticModelInfo (example_tables\<lparr>GetAntigravityModelConfig := rev example_cfg\<rparr>)
     ''gemini-3-pro-high'' = LookupStaticModelInfo example_tables ''gemini-3-pro-high''"
    using t1 m by (simp add: allModels_update_cfg)
  from a c g r1 r2 r3 r4 show ?thesis by blast
qed


text \<open>
  Claim C10. Let the library be as Go's (\<open>go_strings\<close>, \<open>go_sort\<close>). For a non-empty
  identifier that no array table holds and that the configuration map binds to an entry, \<open>LookupStaticModelInfo\<close> returns a descriptor with
  the identifier, the thinking support and the completion-token cap of the entry and with
  empty \<open>Object\<close>, \<open>OwnedBy\<close> and \<open>Type\<close>. The list for the channel \<open>antigravity\<close> holds, for
  the same identifier, the descriptor with \<open>Object = model\<close> and
  \<open>OwnedBy = Type = antigravity\<close>; every element of that list with this identifier agrees
  with the looked-up descriptor on thinking support and cap and differs from it as a record,
  and the looked-up descriptor is no element of the list.
\<close>

theorem LookupStaticModelInfo_antigravity_tags:
  assumes "go_strings lib" "go_sort lib"
    and "modelID \<noteq> ''''"
    and "\<forall>t \<in> set (allModels sd). \<forall>m. Some m \<in> set t \<longrightarrow> ID m \<noteq> modelID"
    and "distinct (map fst (GetAntigravityModelConfig sd))"
    and "(modelID, Some entry) \<in> set (GetAntigravityModelConfig sd)"
  shows "LookupStaticModelInfo sd modelID =
           Some \<lparr>ID = modelID, Object = '''', Created = 0, OwnedBy = '''', Type = '''',
                 DisplayName = '''', Description = '''', ContextLength = 0,
                 MaxCompletionTokens = MaxCompletionTokens_cfg entry, SupportedEndpoints = [],
                 Thinking = Thinking_cfg entry\<rparr> \<and>
         Some \<lparr>ID = modelID, Object = ''model'', Created = 0, OwnedBy = ''antigravity'',
               Type = ''antigravity'', DisplayName = '''', Description = '''',
               ContextLength = 0, MaxCompletionTokens = MaxCompletionTokens_cfg entry,
               SupportedEndpoints = [], Thinking = Thinking_cfg entry\<rparr>
           \<in> set (GetStaticModelDefinitionsByChannel lib sd ''antigravity'') \<and>
         (\<forall>m \<in> set (GetStaticModelDefinitionsByChannel lib sd ''antigravity'').
            map_option ID m = Some modelID \<longrightarrow>
              m \<noteq> LookupStaticModelInfo sd modelID \<and>
              map_option Thinking m = map_option Thinking (LookupStaticModelInfo sd modelID) \<and>
              map_option MaxCompletionTokens m =
                map_option MaxCompletionTokens (LookupStaticModelInfo sd modelID)) \<and>
         LookupStaticModelInfo sd modelID \<notin> set (GetStaticModelDefinitionsByChannel lib sd ''antigravity'')"
proof -
  from assms(5,6) have mo: "map_of (GetAntigravityModelConfig sd) modelID = Some (Some entry)"
    by (rule map_of_is_SomeI)
  with assms(3,4) have l: "LookupStaticModelInfo sd modelID = Some (lookup_ModelInfo modelID entry)"
    by (simp add: LookupStaticModelInfo_def lookup_in_all_None)
  have s: "set (GetStaticModelDefinitionsByChannel lib sd ''antigravity'') =
           {Some (antigravity_ModelInfo k e) | k e.
              (k, Some e) \<in> set (GetAntigravityModelConfig sd) \<and> k \<noteq> ''''}"
    by (simp only: GetStaticModelDefinitionsByChannel_antigravity [OF assms(1)]
          set_antigravity_models [OF assms(2)])
  have uniq: "e = entry" if "(modelID, Some e) \<in> set (GetAntigravityModelConfig sd)" for e
    using that assms(5) mo by (metis map_of_is_SomeI option.inject)
  show ?thesis
  proof (intro conjI ballI impI)
    show "LookupStaticModelInfo sd modelID =
           Some \<lparr>ID = modelID, Object = '''', Created = 0, OwnedBy = '''', Type = '''',
                 DisplayName = '''', Description = '''', ContextLength = 0,
                 MaxCompletionTokens = MaxCompletionTokens_cfg entry, SupportedEndpoints = [],
                 Thinking = Thinking_cfg entry\<rparr>"
      using l by (simp add: lookup_ModelInfo_def)
    show "Some \<lparr>ID = modelID, Object = ''model'', Created = 0, OwnedBy = ''antigravity'',
               Type = ''antigravity'', DisplayName = '''', Description = '''',
               ContextLength = 0, MaxCompletionTokens = MaxCompletionTokens_cfg entry,
               SupportedEndpoints = [], Thinking = Thinking_cfg entry\<rparr>
           \<in> set (GetStaticModelDefinitionsByChannel lib sd ''antigravity'')"
      unfolding s using assms(3,6) by (auto simp: antigravity_ModelInfo_def)
    show "LookupStaticModelInfo sd modelID \<notin> set (GetStaticModelDefinitionsByChannel lib sd ''antigravity'')"
      unfolding s l by (auto simp: antigravity_ModelInfo_def lookup_ModelInfo_def)
  next
    fix m
    assume m: "m \<in> set (GetStaticModelDefinitionsByChannel lib sd ''antigravity'')"
      and i: "map_option ID m = Some modelID"
    from m obtain k e where ke: "m = Some (antigravity_ModelInfo k e)"
      "(k, Some e) \<in> set (GetAntigravityModelConfig sd)"
      unfolding s by blast
    with i have "k = modelID" by (simp add: ID_antigravity_ModelInfo)
    with ke uniq have m': "m = Some (antigravity_ModelInfo modelID entry)" by simp
    show "m \<noteq> LookupStaticModelInfo sd modelID"
      unfolding m' l by (simp add: antigravity_ModelInfo_def lookup_ModelInfo_def)
    show "map_option Thinking m = map_option Thinking (LookupStaticModelInfo sd modelID)"
      unfolding m' l by (simp add: antigravity_ModelInfo_def lookup_ModelInfo_def)
    show "map_option MaxCompletionTokens m =
                map_option MaxCompletionTokens (LookupStaticModelInfo sd modelID)"
      unfolding m' l by (simp add: antigravity_ModelInfo_def lookup_ModelInfo_def)
  qed
qed


theorem LookupStaticModelInfo_antigravity_tags_witness:
  "go_strings go_ascii \<and> go_sort go_ascii \<and> ''gemini-3-pro-high'' \<noteq> '''' \<and>
   lookup_in_all ''gemini-3-pro-high'' (allModels example_tables) = None \<and>
   distinct (map fst (GetAntigravityModelConfig example_tables)) \<and>
   (''gemini-3-pro-high'', Some example_entry) \<in> set (GetAntigravityModelConfig example_tables) \<and>
   map_option Object (LookupStaticModelInfo example_tables ''gemini-3-pro-high'') = Some '''' \<and>
   map_option OwnedBy (LookupStaticModelInfo example_tables ''gemini-3-pro-high'') = Some '''' \<and>
   map_option Type (LookupStaticModelInfo example_tables ''gemini-3-pro-high'') = Some '''' \<and>
   map_option MaxCompletionTokens (LookupStaticModelInfo example_tables ''gemini-3-pro-high'') =
     Some 64000 \<and>
   LookupStaticModelInfo example_tables ''gemini-3-pro-high'' \<notin>
     set (GetStaticModelDefinitionsByChannel go_ascii example_tables ''antigravity'')"
proof -
  have a: "''gemini-3-pro-high'' \<noteq> ''''"
    by simp
  have b: "\<forall>t \<in> set (allModels example_tables). \<forall>m. Some m \<in> set t \<longrightarrow>
      ID m \<noteq> ''gemini-3-pro-high''"
    by (auto simp: allModels_def example_tables_def example_model_def)
  have c: "distinct (map fst (GetAntigravityModelConfig example_tables))"
    by (simp add: example_tables_def example_cfg_def)
  have d: "(''gemini-3-pro-high'', Some example_entry) \<in>
             set (GetAntigravityModelConfig example_tables)"
    by (simp add: example_tables_def example_cfg_def)
  note t = LookupStaticModelInfo_antigravity_tags [OF go_ascii_strings go_ascii_sort a b c d]
  from t have l: "LookupStaticModelInfo example_tables ''gemini-3-pro-high'' =
           Some \<lparr>ID = ''gemini-3-pro-high'', Object = '''', Created = 0, OwnedBy = '''',
                 Type = '''', DisplayName = '''', Description = '''', ContextLength = 0,
                 MaxCompletionTokens = MaxCompletionTokens_cfg example_entry,
                 SupportedEndpoints = [], Thinking = Thinking_cfg example_entry\<rparr>"
    by blast
  from t have n: "LookupStaticModelInfo example_tables ''gemini-3-pro-high'' \<notin>
     set (GetStaticModelDefinitionsByChannel go_ascii example_tables ''antigravity'')"
    by blast
  have "map_option Object (LookupStaticModelInfo example_tables ''gemini-3-pro-high'') = Some ''''"
    "map_option OwnedBy (LookupStaticModelInfo example_tables ''gemini-3-pro-high'') = Some ''''"
    "map_option Type (LookupStaticModelInfo example_tables ''gemini-3-pro-high'') = Some ''''"
    "map_option MaxCompletionTokens (LookupStaticModelInfo example_tables ''gemini-3-pro-high'') =
       Some 64000"
    unfolding l by (simp_all add: example_entry_def)
  moreover have "lookup_in_all ''gemini-3-pro-high'' (allModels example_tables) = None"
    using b by (rule lookup_in_all_None)
  ultimately show ?thesis using a c d n go_ascii_strings go_ascii_sort by blast
qed

section \<open>Properties of the quota handlers\<close>

subsection \<open>Requests sent and replies built\<close>

lemma makeKiroRequest_calls:
  "snd (makeKiroRequest e c proxyURL target tok payload) = [kiro_request c target tok payload]"
  by (simp add: makeKiroRequest_def Let_def)

lemma listProfiles_calls:
  "snd (listProfiles e c proxyURL tok) = [kiro_request c targetListProfiles tok Map.empty]"
  using makeKiroRequest_calls [of e c proxyURL targetListProfiles tok Map.empty]
  by (auto simp: listProfiles_def split: prod.splits sum.splits)

lemma getUsageLimits_calls:
  "snd (getUsageLimits e c proxyURL tok arn) =
     [kiro_request c targetGetUsage tok (usage_payload arn)]"
  using makeKiroRequest_calls [of e c proxyURL targetGetUsage tok "usage_payload arn"]
  by (auto simp: getUsageLimits_def split: prod.splits sum.splits)

lemma resolve_profileArn_present:
  "profileArn \<noteq> '''' \<Longrightarrow>
   resolve_profileArn e c proxyURL tok profileArn = (profileArn, [], [])"
  by (simp add: resolve_profileArn_def)

lemma resolve_profileArn_failed:
  assumes "fst (listProfiles e c proxyURL tok) = Inl err"
  shows "resolve_profileArn e c proxyURL tok '''' =
           ('''', [kiro_request c targetListProfiles tok Map.empty],
            [Warnf (''kiro quota: failed to list profiles: '' @ err)])"
  using assms listProfiles_calls [of e c proxyURL tok]
  by (auto simp: resolve_profileArn_def split: prod.splits)

lemma resolve_profileArn_found:
  assumes "fst (listProfiles e c proxyURL tok) = Inr (arn # rest)"
  shows "resolve_profileArn e c proxyURL tok '''' =
           (arn, [kiro_request c targetListProfiles tok Map.empty],
            [Debugf (''kiro quota: resolved profile ARN: '' @ arn)])"
  using assms listProfiles_calls [of e c proxyURL tok]
  by (auto simp: resolve_profileArn_def split: prod.splits)

lemma resolve_profileArn_none:
  assumes "fst (listProfiles e c proxyURL tok) = Inr []"
  shows "resolve_profileArn e c proxyURL tok '''' =
           ('''', [kiro_request c targetListProfiles tok Map.empty], [])"
  using assms listProfiles_calls [of e c proxyURL tok]
  by (auto simp: resolve_profileArn_def split: prod.splits)

lemma resolve_profileArn_calls:
  "fst (snd (resolve_profileArn e c proxyURL tok profileArn)) =
     (if profileArn = '''' then [kiro_request c targetListProfiles tok Map.empty] else [])"
  using listProfiles_calls [of e c proxyURL tok]
  by (auto simp: resolve_profileArn_def split: prod.splits sum.splits list.splits)

text \<open>Past the three checks, the handler is discovery followed by the usage call.\<close>

lemma GetKiroQuota_valid:
  assumes "Query c ''auth_id'' = authID" "authID \<noteq> ''''"
    and "authManager h = Some GetByID" "GetByID authID = (Some a, True)"
    and "assert_string (index_Metadata a ''access_token'') = Some tok" "tok \<noteq> ''''"
    and "resolve_profileArn e (WithTimeout (Request_Context c) 30) (ProxyURL h) tok
           (case assert_string (index_Metadata a ''profile_arn'') of
              Some p \<Rightarrow> p | None \<Rightarrow> '''') = (arn, cs, ls)"
  shows "GetKiroQuota h e c =
           \<lparr>reply =
              (case fst (getUsageLimits e (WithTimeout (Request_Context c) 30) (ProxyURL h) tok arn) of
                 Inl err \<Rightarrow> error_reply 500 (''failed to fetch usage: '' @ err)
               | Inr usage \<Rightarrow> (200, H (kiro_response usage))),
            lookups = [authID],
            calls = cs @ [kiro_request (WithTimeout (Request_Context c) 30) targetGetUsage tok
                           (usage_payload arn)],
            logs = ls\<rparr>"
  using assms
    getUsageLimits_calls [of e "WithTimeout (Request_Context c) 30" "ProxyURL h" tok arn]
  by (auto simp: GetKiroQuota_def Let_def split: prod.splits sum.splits)

lemma GetKiroQuota_200:
  assumes "fst (reply (GetKiroQuota h e c)) = 200"
  shows "\<exists>tok arn usage.
           fst (getUsageLimits e (WithTimeout (Request_Context c) 30) (ProxyURL h) tok arn) =
             Inr usage \<and>
           reply (GetKiroQuota h e c) = (200, H (kiro_response usage))"
  using assms
  by (auto simp: GetKiroQuota_def Let_def error_reply_def
        split: if_splits option.splits prod.splits sum.splits)
     (metis fst_conv)+

lemma kiro_response_fixed:
  "kiro_response usage ''context_usage_percent'' = Some (JNumber 0)"
  "kiro_response usage ''monthly_context_limit'' = Some (JNumber 100)"
  by (simp_all add: kiro_response_def Let_def split: list.splits)

lemma kiro_response_first:
  "UsageBreakdownList usage = b # rest \<Longrightarrow>
   kiro_response usage ''credit_usage'' = Some (JNumber (CurrentUsageWithPrecision b))"
  "UsageBreakdownList usage = b # rest \<Longrightarrow>
   kiro_response usage ''monthly_credit_limit'' = Some (JNumber (UsageLimitWithPrecision b))"
  "UsageBreakdownList usage = b # rest \<Longrightarrow>
   kiro_response usage = kiro_response (usage\<lparr>UsageBreakdownList := [b]\<rparr>)"
  by (simp_all add: kiro_response_def Let_def)

lemma kiro_response_empty:
  "UsageBreakdownList usage = [] \<Longrightarrow> kiro_response usage ''credit_usage'' = Some (JNumber 0)"
  "UsageBreakdownList usage = [] \<Longrightarrow>
   kiro_response usage ''monthly_credit_limit'' = Some (JNumber 0)"
  by (simp_all add: kiro_response_def Let_def)

subsection \<open>Evaluation on the concrete store and provider\<close>

lemmas example_quota_defs =
  example_handler_def example_store_def example_ctx_def no_auth_id_ctx_def example_env_def
  example_usage_def example_usage_no_breakdown_def Query_def index_Metadata_def
  GetKiroQuota_def GetCopilotQuota_def resolve_profileArn_def listProfiles_def
  getUsageLimits_def makeKiroRequest_def fetchCopilotUsage_def kiro_request_def
  copilot_request_def usage_payload_def targetListProfiles_def targetGetUsage_def
  error_reply_def reply_field_def Let_def

lemma example_queries:
  "Query no_auth_id_ctx ''auth_id'' = ''''"
  "Query (example_ctx authID) ''auth_id'' = authID"
  by (simp_all add: Query_def no_auth_id_ctx_def example_ctx_def)

subsection \<open>Rejected requests\<close>

text \<open>
  Claim C1. In \<open>GetKiroQuota\<close> and in \<open>GetCopilotQuota\<close>: an empty \<open>auth_id\<close> is answered
  with status 400 and the message \<open>auth_id is required\<close>, with no lookup in the credential
  store and no outbound request; a credential the store does not have is answered with
  status 404 and \<open>auth not found\<close>; a credential whose metadata has no \<open>access_token\<close> is
  answered with status 400 and a message of its own. In the three cases no outbound
  request is made, and the not-found reply differs from the other two.
\<close>

theorem quota_input_errors:
  "(Query c0 ''auth_id'' = '''' \<longrightarrow>
      GetKiroQuota h e c0 =
        \<lparr>reply = error_reply 400 ''auth_id is required'', lookups = [], calls = [], logs = []\<rparr> \<and>
      GetCopilotQuota h e c0 =
        \<lparr>reply = error_reply 400 ''auth_id is required'', lookups = [], calls = [], logs = []\<rparr>) \<and>
   (Query c1 ''auth_id'' \<noteq> '''' \<and> authManager h = Some GetByID \<and>
    GetByID (Query c1 ''auth_id'') = (auth, ok) \<and> (\<not> ok \<or> auth = None) \<longrightarrow>
      reply (GetKiroQuota h e c1) = error_reply 404 ''auth not found'' \<and>
      calls (GetKiroQuota h e c1) = [] \<and>
      reply (GetCopilotQuota h e c1) = error_reply 404 ''auth not found'' \<and>
      calls (GetCopilotQuota h e c1) = []) \<and>
   (Query c2 ''auth_id'' \<noteq> '''' \<and> authManager h = Some GetByID \<and>
    GetByID (Query c2 ''auth_id'') = (Some a, True) \<and>
    index_Metadata a ''access_token'' = None \<longrightarrow>
      reply (GetKiroQuota h e c2) = error_reply 400 ''access_token not found in auth data'' \<and>
      calls (GetKiroQuota h e c2) = [] \<and>
      reply (GetCopilotQuota h e c2) = error_reply 400 ''no access token found in auth'' \<and>
      calls (GetCopilotQuota h e c2) = []) \<and>
   error_reply 404 ''auth not found'' \<noteq> error_reply 400 ''auth_id is required'' \<and>
   error_reply 400 ''access_token not found in auth data'' \<noteq>
     error_reply 404 ''auth not found'' \<and>
   error_reply 400 ''no access token found in auth'' \<noteq> error_reply 404 ''auth not found''"
proof (intro conjI impI)
  assume "Query c0 ''auth_id'' = ''''"
  then show "GetKiroQuota h e c0 =
        \<lparr>reply = error_reply 400 ''auth_id is required'', lookups = [], calls = [], logs = []\<rparr>"
    and "GetCopilotQuota h e c0 =
        \<lparr>reply = error_reply 400 ''auth_id is required'', lookups = [], calls = [], logs = []\<rparr>"
    by (simp_all add: GetKiroQuota_def GetCopilotQuota_def)
next
  assume "Query c1 ''auth_id'' \<noteq> '''' \<and> authManager h = Some GetByID \<and>
    GetByID (Query c1 ''auth_id'') = (auth, ok) \<and> (\<not> ok \<or> auth = None)"
  then show "reply (GetKiroQuota h e c1) = error_reply 404 ''auth not found''"
    and "calls (GetKiroQuota h e c1) = []"
    and "reply (GetCopilotQuota h e c1) = error_reply 404 ''auth not found''"
    and "calls (GetCopilotQuota h e c1) = []"
    by (auto simp: GetKiroQuota_def GetCopilotQuota_def)
next
  assume "Query c2 ''auth_id'' \<noteq> '''' \<and> authManager h = Some GetByID \<and>
    GetByID (Query c2 ''auth_id'') = (Some a, True) \<and>
    index_Metadata a ''access_token'' = None"
  then show "reply (GetKiroQuota h e c2) =
      error_reply 400 ''access_token not found in auth data''"
    and "calls (GetKiroQuota h e c2) = []"
    and "reply (GetCopilotQuota h e c2) = error_reply 400 ''no access token found in auth''"
    and "calls (GetCopilotQuota h e c2) = []"
    by (auto simp: GetKiroQuota_def GetCopilotQuota_def index_Metadata_def
          split: option.splits)
next
  show "error_reply 404 ''auth not found'' \<noteq> error_reply 400 ''auth_id is required''"
    and "error_reply 400 ''access_token not found in auth data'' \<noteq>
     error_reply 404 ''auth not found''"
    and "error_reply 400 ''no access token found in auth'' \<noteq> error_reply 404 ''auth not found''"
    by (simp_all add: error_reply_def)
qed

theorem quota_input_errors_witness:
  "Query no_auth_id_ctx ''auth_id'' = '''' \<and>
   reply (GetKiroQuota example_handler (example_env (Response 200 ''two profiles'') ''usage''
            (Response 429 ''rate limited'')) no_auth_id_ctx) =
     error_reply 400 ''auth_id is required'' \<and>
   example_store ''acct-9'' = (None, False) \<and>
   reply (GetCopilotQuota example_handler (example_env (Response 200 ''two profiles'') ''usage''
            (Response 429 ''rate limited'')) (example_ctx ''acct-9'')) =
     error_reply 404 ''auth not found'' \<and>
   index_Metadata \<lparr>Metadata = Some [''region'' \<mapsto> JString ''us-east-1'']\<rparr> ''access_token'' = None \<and>
   reply (GetKiroQuota example_handler (example_env (Response 200 ''two profiles'') ''usage''
            (Response 429 ''rate limited'')) (example_ctx ''acct-2'')) =
     error_reply 400 ''access_token not found in auth data'' \<and>
   calls (GetKiroQuota example_handler (example_env (Response 200 ''two profiles'') ''usage''
            (Response 429 ''rate limited'')) (example_ctx ''acct-2'')) = []"
proof -
  let ?e = "example_env (Response 200 ''two profiles'') ''usage'' (Response 429 ''rate limited'')"
  have m: "authManager example_handler = Some example_store"
    by (simp add: example_handler_def)
  have s9: "example_store ''acct-9'' = (None, False)"
    and s2: "example_store ''acct-2'' =
      (Some \<lparr>Metadata = Some [''region'' \<mapsto> JString ''us-east-1'']\<rparr>, True)"
    by (simp_all add: example_store_def)
  have i: "index_Metadata \<lparr>Metadata = Some [''region'' \<mapsto> JString ''us-east-1'']\<rparr>
             ''access_token'' = None"
    by (simp add: index_Metadata_def)
  from quota_input_errors
    [of no_auth_id_ctx example_handler ?e "example_ctx ''acct-9''" example_store None False
        "example_ctx ''acct-2''" "\<lparr>Metadata = Some [''region'' \<mapsto> JString ''us-east-1'']\<rparr>"]
    m s9 s2 i example_queries
  show ?thesis by simp
qed


lemma example_store_acct:
  "example_store ''acct-1'' =
     (Some \<lparr>Metadata = Some [''access_token'' \<mapsto> JString ''abc'',
                             ''profile_arn'' \<mapsto> JString '''']\<rparr>, True)"
  "example_store ''acct-3'' =
     (Some \<lparr>Metadata = Some [''access_token'' \<mapsto> JString ''xyz'',
                             ''profile_arn'' \<mapsto> JString ''arn-0'']\<rparr>, True)"
  by (simp_all add: example_store_def)

lemma example_listProfiles:
  "fst (listProfiles (example_env (Response 200 ''two profiles'') u k) cx p tok) =
     Inr [''arn-1'', ''arn-2'']"
  "fst (listProfiles (example_env (TransportError ''connection refused'') u k) cx p tok) =
     Inl ''request failed: connection refused''"
  by (simp_all add: listProfiles_def makeKiroRequest_def kiro_request_def example_env_def
        Let_def)

lemma example_getUsageLimits:
  "fst (getUsageLimits (example_env l ''usage'' k) cx p tok arn) = Inr example_usage"
  "fst (getUsageLimits (example_env l ''no breakdown'' k) cx p tok arn) =
     Inr example_usage_no_breakdown"
  by (simp_all add: getUsageLimits_def makeKiroRequest_def kiro_request_def example_env_def
        targetListProfiles_def targetGetUsage_def Let_def)

subsection \<open>Discovery of the profile ARN\<close>

text \<open>
  Claim C2. For a request that passes the checks of \<open>GetKiroQuota\<close> (credential found,
  non-empty access token): the \<open>ListProfiles\<close> request is among the requests sent exactly
  when the credential supplies no profile ARN (the field is absent, not a string, or
  empty). When the listing succeeds with a non-empty list, the requests sent are the
  listing followed by \<open>GetUsageLimits\<close> with the first ARN returned. When the listing
  fails, the failure is logged as a warning, the requests sent are the listing followed
  by \<open>GetUsageLimits\<close> without a profile ARN, and the reply is the successful one whenever
  that usage call succeeds.
\<close>

theorem kiro_discovery:
  assumes "Query c ''auth_id'' = authID" "authID \<noteq> ''''"
    and "authManager h = Some GetByID" "GetByID authID = (Some a, True)"
    and "assert_string (index_Metadata a ''access_token'') = Some tok" "tok \<noteq> ''''"
    and "profileArn =
           (case assert_string (index_Metadata a ''profile_arn'') of
              Some p \<Rightarrow> p | None \<Rightarrow> '''')"
    and "cx = WithTimeout (Request_Context c) 30"
  shows "(kiro_request cx targetListProfiles tok Map.empty \<in> set (calls (GetKiroQuota h e c)))
           = (profileArn = '''') \<and>
         (profileArn \<noteq> '''' \<longrightarrow>
            calls (GetKiroQuota h e c) =
              [kiro_request cx targetGetUsage tok (usage_payload profileArn)]) \<and>
         (profileArn = '''' \<and> fst (listProfiles e cx (ProxyURL h) tok) = Inr (arn # rest) \<longrightarrow>
            calls (GetKiroQuota h e c) =
              [kiro_request cx targetListProfiles tok Map.empty,
               kiro_request cx targetGetUsage tok (usage_payload arn)] \<and>
            (arn \<noteq> '''' \<longrightarrow> usage_payload arn ''profileArn'' = Some arn)) \<and>
         (profileArn = '''' \<and> fst (listProfiles e cx (ProxyURL h) tok) = Inl err \<longrightarrow>
            calls (GetKiroQuota h e c) =
              [kiro_request cx targetListProfiles tok Map.empty,
               kiro_request cx targetGetUsage tok (usage_payload '''')] \<and>
            usage_payload '''' ''profileArn'' = None \<and>
            logs (GetKiroQuota h e c) =
              [Warnf (''kiro quota: failed to list profiles: '' @ err)] \<and>
            (\<forall>usage. fst (getUsageLimits e cx (ProxyURL h) tok '''') = Inr usage \<longrightarrow>
               reply (GetKiroQuota h e c) = (200, H (kiro_response usage))))"
proof -
  note v = GetKiroQuota_valid [OF assms(1-6)]
  have target_neq: "targetListProfiles \<noteq> targetGetUsage"
    by (simp add: targetListProfiles_def targetGetUsage_def)
  have not_list: "kiro_request cx targetListProfiles tok Map.empty \<noteq>
                  kiro_request cx targetGetUsage tok p" for p
    using target_neq by (simp add: kiro_request_def)
  have present: "calls (GetKiroQuota h e c) =
      [kiro_request cx targetGetUsage tok (usage_payload profileArn)]"
    if "profileArn \<noteq> ''''"
    using v [of e profileArn "[]" "[]"] that assms(7,8)
    by (simp add: resolve_profileArn_present)
  have absent: "kiro_request cx targetListProfiles tok Map.empty \<in>
      set (calls (GetKiroQuota h e c))" if "profileArn = ''''"
  proof -
    obtain arn' cs ls where r: "resolve_profileArn e cx (ProxyURL h) tok '''' = (arn', cs, ls)"
      by (metis prod_cases3)
    with resolve_profileArn_calls [of e cx "ProxyURL h" tok "''''"]
    have "cs = [kiro_request cx targetListProfiles tok Map.empty]" by simp
    with v [of e arn' cs ls] r that assms(7,8) show ?thesis by simp
  qed
  show ?thesis
  proof (intro conjI impI allI)
    show "(kiro_request cx targetListProfiles tok Map.empty \<in> set (calls (GetKiroQuota h e c)))
           = (profileArn = '''')"
    proof (cases "profileArn = ''''")
      case True
      with absent show ?thesis by simp
    next
      case False
      with present [OF False] not_list show ?thesis by simp
    qed
    show "calls (GetKiroQuota h e c) =
              [kiro_request cx targetGetUsage tok (usage_payload profileArn)]"
      if "profileArn \<noteq> ''''"
      using that by (rule present)
  next
    assume f: "profileArn = '''' \<and> fst (listProfiles e cx (ProxyURL h) tok) = Inr (arn # rest)"
    then have "resolve_profileArn e cx (ProxyURL h) tok '''' =
           (arn, [kiro_request cx targetListProfiles tok Map.empty],
            [Debugf (''kiro quota: resolved profile ARN: '' @ arn)])"
      by (simp add: resolve_profileArn_found)
    with v [of e arn "[kiro_request cx targetListProfiles tok Map.empty]"
              "[Debugf (''kiro quota: resolved profile ARN: '' @ arn)]"] f assms(7,8)
    show "calls (GetKiroQuota h e c) =
              [kiro_request cx targetListProfiles tok Map.empty,
               kiro_request cx targetGetUsage tok (usage_payload arn)]"
      by simp
    show "usage_payload arn ''profileArn'' = Some arn" if "arn \<noteq> ''''"
      using that by (simp add: usage_payload_def)
  next
    assume f: "profileArn = '''' \<and> fst (listProfiles e cx (ProxyURL h) tok) = Inl err"
    then have "resolve_profileArn e cx (ProxyURL h) tok '''' =
           ('''', [kiro_request cx targetListProfiles tok Map.empty],
            [Warnf (''kiro quota: failed to list profiles: '' @ err)])"
      by (simp add: resolve_profileArn_failed)
    with v [of e "''''" "[kiro_request cx targetListProfiles tok Map.empty]"
              "[Warnf (''kiro quota: failed to list profiles: '' @ err)]"] f assms(7,8)
    have g: "GetKiroQuota h e c =
           \<lparr>reply =
              (case fst (getUsageLimits e cx (ProxyURL h) tok '''') of
                 Inl err \<Rightarrow> error_reply 500 (''failed to fetch usage: '' @ err)
               | Inr usage \<Rightarrow> (200, H (kiro_response usage))),
            lookups = [authID],
            calls = [kiro_request cx targetListProfiles tok Map.empty] @
                    [kiro_request cx targetGetUsage tok (usage_payload '''')],
            logs = [Warnf (''kiro quota: failed to list profiles: '' @ err)]\<rparr>"
      by simp
    show "calls (GetKiroQuota h e c) =
              [kiro_request cx targetListProfiles tok Map.empty,
               kiro_request cx targetGetUsage tok (usage_payload '''')]"
      by (simp add: g)
    show "logs (GetKiroQuota h e c) =
              [Warnf (''kiro quota: failed to list profiles: '' @ err)]"
      by (simp add: g)
    show "usage_payload '''' ''profileArn'' = None"
      by (simp add: usage_payload_def)
    show "reply (GetKiroQuota h e c) = (200, H (kiro_response usage))"
      if "fst (getUsageLimits e cx (ProxyURL h) tok '''') = Inr usage" for usage
      using that by (simp add: g)
  qed
qed


theorem kiro_discovery_witness:
  "fst (listProfiles (example_env (Response 200 ''two profiles'') ''usage'' (Response 429 ''rate limited''))
         (WithTimeout (RequestContext 7) 30) '''' ''abc'') = Inr [''arn-1'', ''arn-2''] \<and>
   calls (GetKiroQuota example_handler
            (example_env (Response 200 ''two profiles'') ''usage'' (Response 429 ''rate limited''))
            (example_ctx ''acct-1'')) =
     [kiro_request (WithTimeout (RequestContext 7) 30) targetListProfiles ''abc'' Map.empty,
      kiro_request (WithTimeout (RequestContext 7) 30) targetGetUsage ''abc''
        (usage_payload ''arn-1'')] \<and>
   usage_payload ''arn-1'' ''profileArn'' = Some ''arn-1'' \<and>
   fst (listProfiles (example_env (TransportError ''connection refused'') ''usage''
          (Response 429 ''rate limited''))
         (WithTimeout (RequestContext 7) 30) '''' ''abc'') =
     Inl ''request failed: connection refused'' \<and>
   calls (GetKiroQuota example_handler
            (example_env (TransportError ''connection refused'') ''usage''
               (Response 429 ''rate limited''))
            (example_ctx ''acct-1'')) =
     [kiro_request (WithTimeout (RequestContext 7) 30) targetListProfiles ''abc'' Map.empty,
      kiro_request (WithTimeout (RequestContext 7) 30) targetGetUsage ''abc''
        (usage_payload '''')] \<and>
   reply (GetKiroQuota example_handler
            (example_env (TransportError ''connection refused'') ''usage''
               (Response 429 ''rate limited''))
            (example_ctx ''acct-1'')) = (200, H (kiro_response example_usage)) \<and>
   calls (GetKiroQuota example_handler
            (example_env (Response 200 ''two profiles'') ''usage'' (Response 429 ''rate limited''))
            (example_ctx ''acct-3'')) =
     [kiro_request (WithTimeout (RequestContext 7) 30) targetGetUsage ''xyz''
        (usage_payload ''arn-0'')]"
proof -
  let ?ok = "example_env (Response 200 ''two profiles'') ''usage'' (Response 429 ''rate limited'')"
  let ?down = "example_env (TransportError ''connection refused'') ''usage''
                 (Response 429 ''rate limited'')"
  let ?a1 = "\<lparr>Metadata = Some [''access_token'' \<mapsto> JString ''abc'',
                                ''profile_arn'' \<mapsto> JString '''']\<rparr>"
  let ?a3 = "\<lparr>Metadata = Some [''access_token'' \<mapsto> JString ''xyz'',
                                ''profile_arn'' \<mapsto> JString ''arn-0'']\<rparr>"
  let ?cx = "WithTimeout (RequestContext 7) 30"
  have m: "authManager example_handler = Some example_store"
    and p: "ProxyURL example_handler = ''''"
    by (simp_all add: example_handler_def)
  have t1: "assert_string (index_Metadata ?a1 ''access_token'') = Some ''abc''"
    and t3: "assert_string (index_Metadata ?a3 ''access_token'') = Some ''xyz''"
    by (simp_all add: index_Metadata_def)
  have p1: "'''' = (case assert_string (index_Metadata ?a1 ''profile_arn'') of
                      Some p \<Rightarrow> p | None \<Rightarrow> '''')"
    and p3: "''arn-0'' = (case assert_string (index_Metadata ?a3 ''profile_arn'') of
                      Some p \<Rightarrow> p | None \<Rightarrow> '''')"
    by (simp_all add: index_Metadata_def)
  have cx: "?cx = WithTimeout (Request_Context (example_ctx k)) 30" for k
    by (simp add: example_ctx_def)
  have n: "''acct-1'' \<noteq> ''''" "''acct-3'' \<noteq> ''''" "''abc'' \<noteq> ''''" "''xyz'' \<noteq> ''''"
    by simp_all
  note found = kiro_discovery
    [OF example_queries(2) n(1) m example_store_acct(1) t1 n(3) p1 cx,
     of ?ok "''arn-1''" "[''arn-2'']"]
  note failed = kiro_discovery
    [OF example_queries(2) n(1) m example_store_acct(1) t1 n(3) p1 cx,
     of ?down _ _ "''request failed: connection refused''"]
  note stored = kiro_discovery
    [OF example_queries(2) n(2) m example_store_acct(2) t3 n(4) p3 cx, of ?ok]
  have r1: "calls (GetKiroQuota example_handler ?ok (example_ctx ''acct-1'')) =
     [kiro_request ?cx targetListProfiles ''abc'' Map.empty,
      kiro_request ?cx targetGetUsage ''abc'' (usage_payload ''arn-1'')]"
    and r2: "usage_payload ''arn-1'' ''profileArn'' = Some ''arn-1''"
    using found by (simp_all add: p example_listProfiles)
  have r3: "calls (GetKiroQuota example_handler ?down (example_ctx ''acct-1'')) =
     [kiro_request ?cx targetListProfiles ''abc'' Map.empty,
      kiro_request ?cx targetGetUsage ''abc'' (usage_payload '''')]"
    and r4: "reply (GetKiroQuota example_handler ?down (example_ctx ''acct-1'')) =
      (200, H (kiro_response example_usage))"
    using failed by (simp_all add: p example_listProfiles example_getUsageLimits)
  have r5: "calls (GetKiroQuota example_handler ?ok (example_ctx ''acct-3'')) =
     [kiro_request ?cx targetGetUsage ''xyz'' (usage_payload ''arn-0'')]"
    using stored by simp
  from r1 r2 r3 r4 r5 example_listProfiles show ?thesis
    by simp
qed


lemma example_run_200:
  "fst (reply (GetKiroQuota example_handler (example_env l ''usage'' k) (example_ctx ''acct-3''))) = 200"
  "reply (GetKiroQuota example_handler (example_env l ''usage'' k) (example_ctx ''acct-3'')) =
     (200, H (kiro_response example_usage))"
  "reply (GetKiroQuota example_handler (example_env l ''no breakdown'' k) (example_ctx ''acct-3'')) =
     (200, H (kiro_response example_usage_no_breakdown))"
  by (simp_all add: example_quota_defs)

subsection \<open>The reply of \<open>GetKiroQuota\<close>\<close>

text \<open>
  Claim C3, as stated, at a provider answer without usage breakdown: the handler replies
  with status 200 and the numeric field \<open>monthly_context_limit\<close> of the reply is 100, not
  zero.
\<close>

theorem kiro_no_breakdown_counterexample:
  "fst (getUsageLimits
         (example_env (Response 200 ''two profiles'') ''no breakdown'' (Response 429 ''rate limited''))
         (WithTimeout (RequestContext 7) 30) '''' ''xyz'' ''arn-0'') =
     Inr example_usage_no_breakdown \<and>
   UsageBreakdownList example_usage_no_breakdown = [] \<and>
   fst (reply (GetKiroQuota example_handler
         (example_env (Response 200 ''two profiles'') ''no breakdown'' (Response 429 ''rate limited''))
         (example_ctx ''acct-3''))) = 200 \<and>
   reply_field (GetKiroQuota example_handler
         (example_env (Response 200 ''two profiles'') ''no breakdown'' (Response 429 ''rate limited''))
         (example_ctx ''acct-3'')) ''monthly_context_limit'' = Some (JNumber 100) \<and>
   reply_field (GetKiroQuota example_handler
         (example_env (Response 200 ''two profiles'') ''no breakdown'' (Response 429 ''rate limited''))
         (example_ctx ''acct-3'')) ''monthly_context_limit'' \<noteq> Some (JNumber 0)"
  by (simp add: example_run_200 example_getUsageLimits reply_field_def kiro_response_fixed
        example_usage_no_breakdown_def)

text \<open>
  Claim C3, amended. The successful reply of \<open>GetKiroQuota\<close> is the map built from the
  answer of the usage call. When the answer lists usage categories, \<open>credit_usage\<close> is the
  used amount and \<open>monthly_credit_limit\<close> the allotted amount of the first category, and
  the map is the one built from the first category alone. When the answer has no
  breakdown, \<open>credit_usage\<close>, \<open>monthly_credit_limit\<close> and \<open>context_usage_percent\<close> are zero
  and \<open>monthly_context_limit\<close> is 100.
\<close>

theorem kiro_response_first_entry:
  "(UsageBreakdownList usage = b # rest \<longrightarrow>
      kiro_response usage ''credit_usage'' = Some (JNumber (CurrentUsageWithPrecision b)) \<and>
      kiro_response usage ''monthly_credit_limit'' =
        Some (JNumber (UsageLimitWithPrecision b)) \<and>
      kiro_response usage = kiro_response (usage\<lparr>UsageBreakdownList := [b]\<rparr>)) \<and>
   (UsageBreakdownList usage = [] \<longrightarrow>
      kiro_response usage ''credit_usage'' = Some (JNumber 0) \<and>
      kiro_response usage ''monthly_credit_limit'' = Some (JNumber 0) \<and>
      kiro_response usage ''context_usage_percent'' = Some (JNumber 0) \<and>
      kiro_response usage ''monthly_context_limit'' = Some (JNumber 100)) \<and>
   (fst (reply (GetKiroQuota h e c)) = 200 \<longrightarrow>
      (\<exists>tok arn answer.
         fst (getUsageLimits e (WithTimeout (Request_Context c) 30) (ProxyURL h) tok arn) =
           Inr answer \<and>
         reply (GetKiroQuota h e c) = (200, H (kiro_response answer))))"
  using kiro_response_first [of usage b rest] kiro_response_empty [of usage]
    kiro_response_fixed [of usage] GetKiroQuota_200 [of h e c]
  by blast

theorem kiro_response_first_entry_witness:
  "UsageBreakdownList example_usage =
     \<lparr>CurrentUsageWithPrecision = 12.5, UsageLimitWithPrecision = 50\<rparr> #
     [\<lparr>CurrentUsageWithPrecision = 3, UsageLimitWithPrecision = 4\<rparr>] \<and>
   kiro_response example_usage ''credit_usage'' = Some (JNumber 12.5) \<and>
   kiro_response example_usage ''monthly_credit_limit'' = Some (JNumber 50) \<and>
   UsageBreakdownList example_usage_no_breakdown = [] \<and>
   kiro_response example_usage_no_breakdown ''credit_usage'' = Some (JNumber 0) \<and>
   kiro_response example_usage_no_breakdown ''monthly_credit_limit'' = Some (JNumber 0) \<and>
   fst (reply (GetKiroQuota example_handler
         (example_env (Response 200 ''two profiles'') ''usage'' (Response 429 ''rate limited''))
         (example_ctx ''acct-3''))) = 200 \<and>
   reply_field (GetKiroQuota example_handler
         (example_env (Response 200 ''two profiles'') ''usage'' (Response 429 ''rate limited''))
         (example_ctx ''acct-3'')) ''credit_usage'' = Some (JNumber 12.5) \<and>
   reply_field (GetKiroQuota example_handler
         (example_env (Response 200 ''two profiles'') ''usage'' (Response 429 ''rate limited''))
         (example_ctx ''acct-3'')) ''monthly_credit_limit'' = Some (JNumber 50)"
proof -
  let ?e = "example_env (Response 200 ''two profiles'') ''usage'' (Response 429 ''rate limited'')"
  let ?b = "\<lparr>CurrentUsageWithPrecision = 12.5, UsageLimitWithPrecision = 50\<rparr>"
  have u: "UsageBreakdownList example_usage =
             ?b # [\<lparr>CurrentUsageWithPrecision = 3, UsageLimitWithPrecision = 4\<rparr>]"
    by (simp add: example_usage_def)
  have n: "UsageBreakdownList example_usage_no_breakdown = []"
    by (simp add: example_usage_no_breakdown_def)
  note t1 = kiro_response_first_entry
    [of example_usage ?b "[\<lparr>CurrentUsageWithPrecision = 3, UsageLimitWithPrecision = 4\<rparr>]"
        example_handler ?e "example_ctx ''acct-3''"]
  note t2 = kiro_response_first_entry [of example_usage_no_breakdown]
  note f = t1 [THEN conjunct1, rule_format, OF u]
  have r1: "kiro_response example_usage ''credit_usage'' = Some (JNumber 12.5)"
    using f [THEN conjunct1] by simp
  have r2: "kiro_response example_usage ''monthly_credit_limit'' = Some (JNumber 50)"
    using f [THEN conjunct2, THEN conjunct1] by simp
  have r3: "kiro_response example_usage_no_breakdown ''credit_usage'' = Some (JNumber 0)"
    and r4: "kiro_response example_usage_no_breakdown ''monthly_credit_limit'' = Some (JNumber 0)"
    using t2 n by simp_all
  from u n r1 r2 r3 r4 example_run_200 [of "Response 200 ''two profiles''" "Response 429 ''rate limited''"]
  show ?thesis
    by (simp add: reply_field_def)
qed

text \<open>
  Claim C9. Every reply of \<open>GetKiroQuota\<close> with status 200 has \<open>context_usage_percent\<close>
  equal to 0 and \<open>monthly_context_limit\<close> equal to 100, whatever the provider answered,
  also when a usage breakdown is present.
\<close>

theorem kiro_context_fields_fixed:
  "fst (reply (GetKiroQuota h e c)) = 200 \<longrightarrow>
     reply_field (GetKiroQuota h e c) ''context_usage_percent'' = Some (JNumber 0) \<and>
     reply_field (GetKiroQuota h e c) ''monthly_context_limit'' = Some (JNumber 100)"
proof
  assume "fst (reply (GetKiroQuota h e c)) = 200"
  then obtain answer where "reply (GetKiroQuota h e c) = (200, H (kiro_response answer))"
    using GetKiroQuota_200 by blast
  then show "reply_field (GetKiroQuota h e c) ''context_usage_percent'' = Some (JNumber 0) \<and>
     reply_field (GetKiroQuota h e c) ''monthly_context_limit'' = Some (JNumber 100)"
    by (simp add: reply_field_def kiro_response_fixed)
qed

theorem kiro_context_fields_fixed_witness:
  "UsageBreakdownList example_usage \<noteq> [] \<and>
   fst (reply (GetKiroQuota example_handler
         (example_env (Response 200 ''two profiles'') ''usage'' (Response 429 ''rate limited''))
         (example_ctx ''acct-3''))) = 200 \<and>
   reply_field (GetKiroQuota example_handler
         (example_env (Response 200 ''two profiles'') ''usage'' (Response 429 ''rate limited''))
         (example_ctx ''acct-3'')) ''context_usage_percent'' = Some (JNumber 0) \<and>
   reply_field (GetKiroQuota example_handler
         (example_env (Response 200 ''two profiles'') ''usage'' (Response 429 ''rate limited''))
         (example_ctx ''acct-3'')) ''monthly_context_limit'' = Some (JNumber 100)"
  using kiro_context_fields_fixed
    [of example_handler
        "example_env (Response 200 ''two profiles'') ''usage'' (Response 429 ''rate limited'')"
        "example_ctx ''acct-3''"]
    example_run_200(1) [of "Response 200 ''two profiles''" "Response 429 ''rate limited''"]
  by (simp add: example_usage_def)


lemma itoa_429: "itoa 429 = ''429''"
  by (simp add: itoa_def digits.simps)

subsection \<open>Failures of the Copilot usage call\<close>

text \<open>
  Claim C5. In \<open>fetchCopilotUsage\<close>, a response whose status is not 200 gives the error
  \<open>API returned status\<close>, the code, a colon and the body: the message contains the decimal status code
  and the body text as received. A response with status 200 whose body \<open>json.Unmarshal\<close>
  rejects gives the error \<open>failed to parse response: ...\<close>, a message that no status error
  has.
\<close>

theorem fetchCopilotUsage_errors:
  "(roundTrip e (copilot_request token) = Response st b \<and> st \<noteq> 200 \<longrightarrow>
      fst (fetchCopilotUsage e token) = Inl (''API returned status '' @ itoa st @ '': '' @ b) \<and>
      sublist (itoa st) (''API returned status '' @ itoa st @ '': '' @ b) \<and>
      sublist b (''API returned status '' @ itoa st @ '': '' @ b)) \<and>
   (roundTrip e (copilot_request token) = Response 200 b' \<and>
    Unmarshal_CopilotUsageResponse e b' = Inl err \<longrightarrow>
      fst (fetchCopilotUsage e token) = Inl (''failed to parse response: '' @ err)) \<and>
   ''failed to parse response: '' @ err \<noteq> ''API returned status '' @ itoa st' @ '': '' @ b''"
proof (intro conjI impI)
  assume "roundTrip e (copilot_request token) = Response st b \<and> st \<noteq> 200"
  then show "fst (fetchCopilotUsage e token) =
      Inl (''API returned status '' @ itoa st @ '': '' @ b)"
    by (simp add: fetchCopilotUsage_def Let_def)
next
  show "sublist (itoa st) (''API returned status '' @ itoa st @ '': '' @ b)"
    by (rule sublist_appendI)
  have "sublist b ((''API returned status '' @ itoa st @ '': '') @ b @ [])"
    by (rule sublist_appendI)
  then show "sublist b (''API returned status '' @ itoa st @ '': '' @ b)"
    by simp
next
  assume "roundTrip e (copilot_request token) = Response 200 b' \<and>
    Unmarshal_CopilotUsageResponse e b' = Inl err"
  then show "fst (fetchCopilotUsage e token) = Inl (''failed to parse response: '' @ err)"
    by (simp add: fetchCopilotUsage_def Let_def)
next
  show "''failed to parse response: '' @ err \<noteq> ''API returned status '' @ itoa st' @ '': '' @ b''"
    by simp
qed

theorem fetchCopilotUsage_errors_witness:
  "roundTrip (example_env (Response 200 ''two profiles'') ''usage'' (Response 429 ''rate limited''))
     (copilot_request ''abc'') = Response 429 ''rate limited'' \<and>
   fst (fetchCopilotUsage
          (example_env (Response 200 ''two profiles'') ''usage'' (Response 429 ''rate limited''))
          ''abc'') = Inl ''API returned status 429: rate limited'' \<and>
   sublist ''429'' ''API returned status 429: rate limited'' \<and>
   sublist ''rate limited'' ''API returned status 429: rate limited'' \<and>
   roundTrip (example_env (Response 200 ''two profiles'') ''usage'' (Response 200 ''<html>''))
     (copilot_request ''abc'') = Response 200 ''<html>'' \<and>
   Unmarshal_CopilotUsageResponse
     (example_env (Response 200 ''two profiles'') ''usage'' (Response 200 ''<html>''))
     ''<html>'' = Inl ''invalid character'' \<and>
   fst (fetchCopilotUsage
          (example_env (Response 200 ''two profiles'') ''usage'' (Response 200 ''<html>''))
          ''abc'') = Inl ''failed to parse response: invalid character'' \<and>
   reply (GetCopilotQuota example_handler
            (example_env (Response 200 ''two profiles'') ''usage'' (Response 429 ''rate limited''))
            (example_ctx ''acct-1'')) =
     error_reply 500 ''failed to fetch usage: API returned status 429: rate limited''"
proof -
  let ?limited =
    "example_env (Response 200 ''two profiles'') ''usage'' (Response 429 ''rate limited'')"
  let ?html = "example_env (Response 200 ''two profiles'') ''usage'' (Response 200 ''<html>'')"
  have a: "roundTrip ?limited (copilot_request ''abc'') = Response 429 ''rate limited''"
    and b: "roundTrip ?html (copilot_request ''abc'') = Response 200 ''<html>''"
    and c: "Unmarshal_CopilotUsageResponse ?html ''<html>'' = Inl ''invalid character''"
    by (simp_all add: example_env_def copilot_request_def)
  note t1 = fetchCopilotUsage_errors [of ?limited "''abc''" 429 "''rate limited''"]
  note t2 = fetchCopilotUsage_errors
    [of ?html "''abc''" _ _ "''<html>''" "''invalid character''"]
  have r1: "fst (fetchCopilotUsage ?limited ''abc'') =
      Inl ''API returned status 429: rate limited''"
    and r2: "sublist ''429'' ''API returned status 429: rate limited''"
    and r3: "sublist ''rate limited'' ''API returned status 429: rate limited''"
    using t1 a by (simp_all add: itoa_429)
  have r4: "fst (fetchCopilotUsage ?html ''abc'') =
      Inl ''failed to parse response: invalid character''"
    using t2 b c by simp
  have r5: "reply (GetCopilotQuota example_handler ?limited (example_ctx ''acct-1'')) =
     error_reply 500 ''failed to fetch usage: API returned status 429: rate limited''"
    using r1
    by (cases "fetchCopilotUsage ?limited ''abc''")
      (simp add: GetCopilotQuota_def example_queries example_handler_def example_store_acct)
  from a b c r1 r2 r3 r4 r5 show ?thesis by blast
qed


subsection \<open>The context of the outbound requests\<close>

lemma resolve_profileArn_ctx:
  "resolve_profileArn e cx p tok arn = (arn', cs, ls) \<Longrightarrow> r \<in> set cs \<Longrightarrow> ctx r = cx"
  using resolve_profileArn_calls [of e cx p tok arn]
  by (auto simp: kiro_request_def split: if_splits)

lemma getUsageLimits_ctx:
  "getUsageLimits e cx p tok arn = (res, cs) \<Longrightarrow> r \<in> set cs \<Longrightarrow> ctx r = cx"
  using getUsageLimits_calls [of e cx p tok arn]
  by (auto simp: kiro_request_def)

lemma calls_GetKiroQuota_ctx:
  assumes "r \<in> set (calls (GetKiroQuota h e c))"
  shows "ctx r = WithTimeout (Request_Context c) 30 \<and>
         derives_from (ctx r) (Request_Context c)"
proof -
  have "ctx r = WithTimeout (Request_Context c) 30"
    using assms
    by (auto simp: GetKiroQuota_def Let_def
          split: if_splits option.splits prod.splits sum.splits
          dest: resolve_profileArn_ctx getUsageLimits_ctx)
  moreover have "derives_from (WithTimeout x d) x" for x d
    by (cases x) simp_all
  ultimately show ?thesis by simp
qed

lemma calls_GetCopilotQuota_ctx:
  "r \<in> set (calls (GetCopilotQuota h e c)) \<Longrightarrow> ctx r = Background"
  by (auto simp: GetCopilotQuota_def fetchCopilotUsage_def Let_def copilot_request_def
        split: if_splits option.splits prod.splits sum.splits)

text \<open>
  Claim C4, on the Copilot path. Every request \<open>GetCopilotQuota\<close> sends is created by
  \<open>http.NewRequest\<close>, that is with the background context, and is bounded by the 30 second
  timeout of the client alone: its context is derived from the context of the inbound
  request only when that context is the background context itself. \<open>GetKiroQuota\<close> sends
  every request under a 30 second timeout derived from the context of the inbound
  request (\<open>calls_GetKiroQuota_ctx\<close>).
\<close>

theorem GetCopilotQuota_context_detached:
  "r \<in> set (calls (GetCopilotQuota h e c)) \<longrightarrow>
     ctx r = Background \<and> client_timeout r = 30 \<and>
     (derives_from (ctx r) (Request_Context c) \<longleftrightarrow> Request_Context c = Background)"
proof
  assume r: "r \<in> set (calls (GetCopilotQuota h e c))"
  then have "ctx r = Background"
    by (rule calls_GetCopilotQuota_ctx)
  moreover from r have "client_timeout r = 30"
    by (auto simp: GetCopilotQuota_def fetchCopilotUsage_def Let_def copilot_request_def
          split: if_splits option.splits prod.splits sum.splits)
  ultimately show "ctx r = Background \<and> client_timeout r = 30 \<and>
     (derives_from (ctx r) (Request_Context c) \<longleftrightarrow> Request_Context c = Background)"
    by simp
qed

theorem GetCopilotQuota_context_detached_witness:
  "Request_Context (example_ctx ''acct-1'') = RequestContext 7 \<and>
   calls (GetCopilotQuota example_handler
      (example_env (Response 200 ''two profiles'') ''usage'' (Response 429 ''rate limited''))
      (example_ctx ''acct-1'')) = [copilot_request ''abc''] \<and>
   ctx (copilot_request ''abc'') = Background \<and>
   \<not> derives_from (ctx (copilot_request ''abc'')) (Request_Context (example_ctx ''acct-1'')) \<and>
   map ctx (calls (GetKiroQuota example_handler
      (example_env (Response 200 ''two profiles'') ''usage'' (Response 429 ''rate limited''))
      (example_ctx ''acct-1''))) =
     [WithTimeout (RequestContext 7) 30, WithTimeout (RequestContext 7) 30] \<and>
   derives_from (WithTimeout (RequestContext 7) 30) (RequestContext 7)"
proof -
  let ?e = "example_env (Response 200 ''two profiles'') ''usage'' (Response 429 ''rate limited'')"
  have c: "calls (GetCopilotQuota example_handler ?e (example_ctx ''acct-1'')) =
             [copilot_request ''abc'']"
    by (simp add: example_quota_defs)
  have q: "Request_Context (example_ctx ''acct-1'') = RequestContext 7"
    by (simp add: example_ctx_def)
  from GetCopilotQuota_context_detached
         [of "copilot_request ''abc''" example_handler ?e "example_ctx ''acct-1''"] c q
  have "ctx (copilot_request ''abc'') = Background"
    and "\<not> derives_from (ctx (copilot_request ''abc'')) (Request_Context (example_ctx ''acct-1''))"
    by simp_all
  moreover have "map ctx (calls (GetKiroQuota example_handler ?e (example_ctx ''acct-1''))) =
     [WithTimeout (RequestContext 7) 30, WithTimeout (RequestContext 7) 30]"
    by (simp add: example_quota_defs)
  ultimately show ?thesis using c q by simp
qed


end
